theory Spec2Isabelle
  imports Complex_Main "HOL-Library.Multiset"
begin

section \<open>Float columns of the data preparation\<close>

text \<open>
  \<open>01_data_transformation.py\<close> computes with pandas float columns in which a missing
  value is \<open>NaN\<close> and a division by zero gives an infinity.  A cell is modelled as a
  real number, an infinity or \<open>NaN\<close>, with the IEEE results of addition, multiplication
  and division; rounding, overflow and the sign of zero are outside the model.
\<close>

datatype float64 = Num real | PInf | NInf | NaN

fun fneg :: "float64 \<Rightarrow> float64" where
  "fneg (Num a) = Num (- a)"
| "fneg PInf = NInf"
| "fneg NInf = PInf"
| "fneg NaN = NaN"

fun fadd :: "float64 \<Rightarrow> float64 \<Rightarrow> float64" where
  "fadd NaN y = NaN"
| "fadd x NaN = NaN"
| "fadd (Num a) (Num b) = Num (a + b)"
| "fadd PInf NInf = NaN"
| "fadd NInf PInf = NaN"
| "fadd PInf y = PInf"
| "fadd NInf y = NInf"
| "fadd (Num a) y = y"

text \<open>An infinity times a number: the sign of the number decides, zero gives \<open>NaN\<close>.\<close>

definition inf_times :: "float64 \<Rightarrow> real \<Rightarrow> float64" where
  "inf_times i a = (if a = 0 then NaN else if 0 < a then i else fneg i)"

fun fmul :: "float64 \<Rightarrow> float64 \<Rightarrow> float64" where
  "fmul NaN y = NaN"
| "fmul x NaN = NaN"
| "fmul (Num a) (Num b) = Num (a * b)"
| "fmul (Num a) PInf = inf_times PInf a"
| "fmul (Num a) NInf = inf_times NInf a"
| "fmul PInf (Num b) = inf_times PInf b"
| "fmul NInf (Num b) = inf_times NInf b"
| "fmul PInf PInf = PInf"
| "fmul NInf NInf = PInf"
| "fmul PInf NInf = NInf"
| "fmul NInf PInf = NInf"

fun fdiv :: "float64 \<Rightarrow> float64 \<Rightarrow> float64" where
  "fdiv NaN y = NaN"
| "fdiv x NaN = NaN"
| "fdiv (Num a) (Num b) =
     (if b = 0 then (if a = 0 then NaN else if 0 < a then PInf else NInf) else Num (a / b))"
| "fdiv (Num a) PInf = Num 0"
| "fdiv (Num a) NInf = Num 0"
| "fdiv PInf (Num b) = (if 0 \<le> b then PInf else NInf)"
| "fdiv NInf (Num b) = (if 0 \<le> b then NInf else PInf)"
| "fdiv PInf y = NaN"
| "fdiv NInf y = NaN"

text \<open>
  \<open>Series.mean()\<close> and the \<open>mean\<close> of a group: missing values are skipped, the others
  are added up and divided by their number; the mean of no value is \<open>NaN\<close>.
\<close>

definition notna :: "float64 \<Rightarrow> bool" where
  "notna x \<longleftrightarrow> x \<noteq> NaN"

definition fsum :: "float64 list \<Rightarrow> float64" where
  "fsum xs = foldl fadd (Num 0) xs"

definition fmean :: "float64 list \<Rightarrow> float64" where
  "fmean xs =
     (let present = filter notna xs
      in if present = [] then NaN else fdiv (fsum present) (Num (real (length present))))"

text \<open>\<open>a.fillna(b)\<close>, cell by cell.\<close>

definition fillna :: "float64 \<Rightarrow> float64 \<Rightarrow> float64" where
  "fillna a b = (if a = NaN then b else a)"


section \<open>Route costs: \<open>create_transportation_costs\<close>\<close>

text \<open>
  The columns of \<open>shipments_df\<close> that the function reads.  \<open>cost_data\<close> and
  \<open>merged_data\<close> carry the same columns (as group means) and the observed cost per
  kilogram, the column \<open>cost_per_kg\<close> of the source; the last data frame adds
  \<open>final_cost_per_kg\<close>.
\<close>

record shipment_record =
  Origin_Warehouse :: string
  Destination :: string
  Cost :: float64
  Weight_kg :: float64
  Distance_miles :: float64

record cost_record = shipment_record +
  observed_cost_per_kg :: float64

record final_record = cost_record +
  final_cost_per_kg :: float64

text \<open>
  The keys of a sequence in the order of their first occurrence: \<open>unique()\<close>, and the
  groups of \<open>groupby\<close>.  (\<open>groupby\<close> sorts its groups; the left merge below looks each
  group up by its key, so that their order does not show in the result.)
\<close>

fun first_occurrences :: "'a list \<Rightarrow> 'a list" where
  "first_occurrences [] = []"
| "first_occurrences (x # xs) = x # removeAll x (first_occurrences xs)"

text \<open>
  \<open>cost_data\<close>: one row for each (warehouse, destination) pair that occurs, with the
  means of \<open>Cost\<close>, \<open>Weight_kg\<close> and \<open>Distance_miles\<close> over the shipments of the pair,
  and \<open>cost_per_kg = Cost / Weight_kg\<close>.
\<close>

definition cost_data_row :: "shipment_record list \<Rightarrow> string \<times> string \<Rightarrow> cost_record" where
  "cost_data_row shipments_df key =
     (let grp = filter (\<lambda>s. (Origin_Warehouse s, Destination s) = key) shipments_df;
          c = fmean (map Cost grp);
          w = fmean (map Weight_kg grp);
          d = fmean (map Distance_miles grp)
      in \<lparr>Origin_Warehouse = fst key, Destination = snd key,
          Cost = c, Weight_kg = w, Distance_miles = d,
          observed_cost_per_kg = fdiv c w\<rparr>)"

definition cost_data :: "shipment_record list \<Rightarrow> cost_record list" where
  "cost_data shipments_df =
     map (cost_data_row shipments_df)
       (first_occurrences (map (\<lambda>s. (Origin_Warehouse s, Destination s)) shipments_df))"

definition all_combinations :: "shipment_record list \<Rightarrow> (string \<times> string) list" where
  "all_combinations shipments_df =
     List.product (first_occurrences (map Origin_Warehouse shipments_df))
                  (first_occurrences (map Destination shipments_df))"

text \<open>
  The left merge of the combinations with \<open>cost_data\<close>: a combination without a row in
  \<open>cost_data\<close> gets \<open>NaN\<close> in every column of \<open>cost_data\<close>.
\<close>

definition merge_left :: "(string \<times> string) list \<Rightarrow> cost_record list \<Rightarrow> cost_record list" where
  "merge_left combinations rows =
     map (\<lambda>key. case find (\<lambda>r. (Origin_Warehouse r, Destination r) = key) rows of
                   Some r \<Rightarrow> r
                 | None \<Rightarrow> \<lparr>Origin_Warehouse = fst key, Destination = snd key,
                             Cost = NaN, Weight_kg = NaN, Distance_miles = NaN,
                             observed_cost_per_kg = NaN\<rparr>)
         combinations"

definition merged_data :: "shipment_record list \<Rightarrow> cost_record list" where
  "merged_data shipments_df = merge_left (all_combinations shipments_df) (cost_data shipments_df)"

text \<open>The gap fill: \<open>avg_mile_cost\<close> and the three columns derived from it.\<close>

definition avg_mile_cost :: "cost_record list \<Rightarrow> float64" where
  "avg_mile_cost merged = fmean (map (\<lambda>r. fdiv (Cost r) (Distance_miles r)) merged)"

definition estimated_cost :: "cost_record list \<Rightarrow> cost_record \<Rightarrow> float64" where
  "estimated_cost merged r = fmul (Distance_miles r) (avg_mile_cost merged)"

definition estimated_cost_per_kg :: "cost_record list \<Rightarrow> cost_record \<Rightarrow> float64" where
  "estimated_cost_per_kg merged r = fdiv (estimated_cost merged r) (fmean (map Weight_kg merged))"

text \<open>
  \<open>create_transportation_costs\<close>, up to the column \<open>final_cost_per_kg\<close>.  The rest of
  the function projects the data frame on four columns and renames them, which changes
  no cell.
\<close>

definition create_transportation_costs :: "shipment_record list \<Rightarrow> final_record list" where
  "create_transportation_costs shipments_df =
     (let merged = merged_data shipments_df
      in map (\<lambda>r. cost_record.extend r
                (final_record.fields
                   (fillna (observed_cost_per_kg r) (estimated_cost_per_kg merged r))))
             merged)"

text \<open>
  The formula of the specification for a filled-in cost: the distance times the ratio of
  the mean observed cost to the mean observed distance, both means over the routes that
  have a cost and a distance.  \<open>cost_column\<close> says which column the cost is read from.
\<close>

definition spec_filled_cost ::
  "(cost_record \<Rightarrow> float64) \<Rightarrow> cost_record list \<Rightarrow> cost_record \<Rightarrow> float64" where
  "spec_filled_cost cost_column merged r =
     (let both = filter (\<lambda>m. notna (cost_column m) \<and> notna (Distance_miles m)) merged
      in fmul (Distance_miles r)
           (fdiv (fmean (map cost_column both)) (fmean (map Distance_miles both))))"


section \<open>Tables of the optimisation engine\<close>

text \<open>
  The three tables read by \<open>02_optimization_model.py\<close> are pandas data frames; a data
  frame is modelled as the list of its rows, in row order, and only the columns the
  engine reads are kept.  \<open>monthly_capacity\<close> and \<open>fixed_cost\<close> are integer columns
  (\<open>astype(int)\<close> in the data preparation), \<open>monthly_demand_kg\<close> and \<open>cost_per_kg\<close>
  are float columns.  Floats are modelled as exact reals: rounding of the binary
  floating-point arithmetic is outside the model.
\<close>

record customer =
  customer_id :: string
  monthly_demand_kg :: real

record warehouse =
  warehouse_id :: string
  monthly_capacity :: int
  fixed_cost :: int

record route =
  from_warehouse :: string
  to_customer_id :: string
  cost_per_kg :: real


section \<open>Feasible-range estimator: \<open>calculate_capacity_constraints\<close>\<close>

text \<open>
  \<open>warehouses_df.sort_values('monthly_capacity', ascending=False)\<close>: the rows in
  descending order of capacity.  The order among rows of equal capacity does not matter
  to the loop, which only adds capacities up.
\<close>

definition warehouses_sorted :: "warehouse list \<Rightarrow> warehouse list" where
  "warehouses_sorted warehouses_df = rev (sort_key monthly_capacity warehouses_df)"

text \<open>
  The \<open>for i, (_, warehouse) in enumerate(..., 1)\<close> loop.  \<open>cur\<close> is
  \<open>current_capacity\<close> before the row is added, \<open>i\<close> the running index.  The loop
  leaves through \<open>break\<close> with \<open>min_warehouses = i\<close>, or runs off the end of the table
  with \<open>min_warehouses\<close> still at its initial value \<open>0\<close>.
\<close>

fun min_warehouses_loop :: "real \<Rightarrow> warehouse list \<Rightarrow> int \<Rightarrow> nat \<Rightarrow> nat" where
  "min_warehouses_loop total_demand [] cur i = 0"
| "min_warehouses_loop total_demand (w # ws) cur i =
     (let current_capacity = cur + monthly_capacity w
      in if total_demand \<le> real_of_int current_capacity then i
         else min_warehouses_loop total_demand ws current_capacity (Suc i))"

definition total_demand_of :: "customer list \<Rightarrow> real" where
  "total_demand_of customers_df = sum_list (map monthly_demand_kg customers_df)"

definition total_capacity_of :: "warehouse list \<Rightarrow> int" where
  "total_capacity_of warehouses_df = sum_list (map monthly_capacity warehouses_df)"

definition calculate_capacity_constraints :: "customer list \<Rightarrow> warehouse list \<Rightarrow> nat \<times> nat" where
  "calculate_capacity_constraints customers_df warehouses_df =
     (let total_demand = total_demand_of customers_df;
          min_warehouses = min_warehouses_loop total_demand (warehouses_sorted warehouses_df) 0 1
      in (min_warehouses, length warehouses_df))"

text \<open>
  The sum of the \<open>k\<close> largest facility capacities, in the words of the specification:
  the capacities of the table in descending order, the first \<open>k\<close> of them added up.
  This is stated on the capacities alone, without the estimator's sorted table.
\<close>

definition capacities_descending :: "warehouse list \<Rightarrow> int list" where
  "capacities_descending warehouses_df = rev (sort (map monthly_capacity warehouses_df))"

definition largest_capacity :: "warehouse list \<Rightarrow> nat \<Rightarrow> int" where
  "largest_capacity warehouses_df k = sum_list (take k (capacities_descending warehouses_df))"


section \<open>The linear program built through PuLP\<close>

text \<open>
  PuLP objects are modelled as data.  A decision variable is named by its dictionary and
  key: \<open>open_warehouses[w]\<close> is \<open>Open w\<close>, \<open>shipment_vars[(w, c)]\<close> is \<open>Ship w c\<close>.
  An \<open>LpAffineExpression\<close> is a list of terms (coefficient, variable) and a constant;
  a constraint compares two affine expressions.  The solver's answer assigns a number
  to every variable.
\<close>

datatype var = Open string | Ship string string

datatype aff = Aff (terms: "(real \<times> var) list") (const: real)

datatype sense = LE | GE | EQ

datatype lp_constraint = Constraint aff sense aff

type_synonym assignment = "var \<Rightarrow> real"

definition aff_value :: "assignment \<Rightarrow> aff \<Rightarrow> real" where
  "aff_value \<sigma> e = sum_list (map (\<lambda>(a, v). a * \<sigma> v) (terms e)) + const e"

fun holds :: "assignment \<Rightarrow> lp_constraint \<Rightarrow> bool" where
  "holds \<sigma> (Constraint l LE r) = (aff_value \<sigma> l \<le> aff_value \<sigma> r)"
| "holds \<sigma> (Constraint l GE r) = (aff_value \<sigma> l \<ge> aff_value \<sigma> r)"
| "holds \<sigma> (Constraint l EQ r) = (aff_value \<sigma> l = aff_value \<sigma> r)"

text \<open>
  The problem with its two variable dictionaries, as \<open>build_optimization_model\<close>
  returns them.  A dictionary is represented by its keys in insertion order;
  \<open>open_vars\<close> are declared \<open>cat='Binary'\<close>, \<open>ship_vars\<close> are declared
  \<open>lowBound=0\<close>.
\<close>

record lp_model =
  objective :: aff
  constraints :: "lp_constraint list"
  open_vars :: "string list"
  ship_vars :: "(string \<times> string) list"

text \<open>
  Keys of a Python dictionary filled from a sequence: every key once, at the position of
  its first occurrence.
\<close>

fun dict_keys :: "'a list \<Rightarrow> 'a list" where
  "dict_keys [] = []"
| "dict_keys (x # xs) = x # removeAll x (dict_keys xs)"

datatype py_error = IndexError | TypeError | KeyError | PulpSolverError

text \<open>\<open>.values[0]\<close> on the rows selected by \<open>df.loc[mask, column]\<close>.\<close>

fun values0 :: "'a list \<Rightarrow> py_error + 'a" where
  "values0 [] = Inl IndexError"
| "values0 (x # xs) = Inr x"

definition fixed_cost_of :: "warehouse list \<Rightarrow> string \<Rightarrow> py_error + int" where
  "fixed_cost_of warehouses_df w =
     values0 (map fixed_cost (filter (\<lambda>r. warehouse_id r = w) warehouses_df))"

definition capacity_of :: "warehouse list \<Rightarrow> string \<Rightarrow> py_error + int" where
  "capacity_of warehouses_df w =
     values0 (map monthly_capacity (filter (\<lambda>r. warehouse_id r = w) warehouses_df))"

definition demand_of :: "customer list \<Rightarrow> string \<Rightarrow> py_error + real" where
  "demand_of customers_df c =
     values0 (map monthly_demand_kg (filter (\<lambda>r. customer_id r = c) customers_df))"

definition cost_per_kg_of :: "route list \<Rightarrow> string \<Rightarrow> string \<Rightarrow> py_error + real" where
  "cost_per_kg_of transport_df w c =
     values0 (map cost_per_kg
       (filter (\<lambda>r. from_warehouse r = w \<and> to_customer_id r = c) transport_df))"

text \<open>
  A list comprehension or \<open>for\<close> loop whose body may raise: the first exception ends
  it.
\<close>

fun traverse :: "('a \<Rightarrow> py_error + 'b) \<Rightarrow> 'a list \<Rightarrow> py_error + 'b list" where
  "traverse f [] = Inr []"
| "traverse f (x # xs) =
     (case f x of
        Inl e \<Rightarrow> Inl e
      | Inr y \<Rightarrow> (case traverse f xs of Inl e \<Rightarrow> Inl e | Inr ys \<Rightarrow> Inr (y # ys)))"

text \<open>The four constraint families of \<open>build_optimization_model\<close>.\<close>

definition demand_constraint :: "string list \<Rightarrow> string \<Rightarrow> real \<Rightarrow> lp_constraint" where
  "demand_constraint wids customer demand =
     Constraint (Aff (map (\<lambda>w. (1, Ship w customer)) wids) 0) EQ (Aff [] demand)"

definition capacity_constraint :: "string list \<Rightarrow> string \<Rightarrow> int \<Rightarrow> lp_constraint" where
  "capacity_constraint cids warehouse capacity =
     Constraint (Aff (map (\<lambda>c. (1, Ship warehouse c)) cids) 0) LE
                (Aff [(real_of_int capacity, Open warehouse)] 0)"

definition min_constraint :: "string list \<Rightarrow> nat \<Rightarrow> lp_constraint" where
  "min_constraint wids MIN_WAREHOUSES =
     Constraint (Aff (map (\<lambda>w. (1, Open w)) wids) 0) GE (Aff [] (real MIN_WAREHOUSES))"

definition max_constraint :: "string list \<Rightarrow> nat \<Rightarrow> lp_constraint" where
  "max_constraint wids MAX_WAREHOUSES =
     Constraint (Aff (map (\<lambda>w. (1, Open w)) wids) 0) LE (Aff [] (real MAX_WAREHOUSES))"

definition shipping_constraint :: "string \<Rightarrow> string \<Rightarrow> int \<Rightarrow> lp_constraint" where
  "shipping_constraint w c capacity =
     Constraint (Aff [(1, Ship w c)] 0) LE (Aff [(real_of_int capacity, Open w)] 0)"

definition fixed_cost_term :: "warehouse list \<Rightarrow> string \<Rightarrow> py_error + real \<times> var" where
  "fixed_cost_term warehouses_df w =
     (case fixed_cost_of warehouses_df w of
        Inl e \<Rightarrow> Inl e
      | Inr fixed \<Rightarrow> Inr (real_of_int fixed, Open w))"

definition transport_cost_term :: "route list \<Rightarrow> string \<times> string \<Rightarrow> py_error + real \<times> var" where
  "transport_cost_term transport_df wc =
     (case cost_per_kg_of transport_df (fst wc) (snd wc) of
        Inl e \<Rightarrow> Inl e
      | Inr cost \<Rightarrow> Inr (cost, Ship (fst wc) (snd wc)))"

definition demand_row :: "customer list \<Rightarrow> string list \<Rightarrow> string \<Rightarrow> py_error + lp_constraint" where
  "demand_row customers_df wids customer =
     (case demand_of customers_df customer of
        Inl e \<Rightarrow> Inl e
      | Inr demand \<Rightarrow> Inr (demand_constraint wids customer demand))"

definition capacity_row :: "warehouse list \<Rightarrow> string list \<Rightarrow> string \<Rightarrow> py_error + lp_constraint" where
  "capacity_row warehouses_df cids warehouse =
     (case capacity_of warehouses_df warehouse of
        Inl e \<Rightarrow> Inl e
      | Inr capacity \<Rightarrow> Inr (capacity_constraint cids warehouse capacity))"

definition shipping_row :: "warehouse list \<Rightarrow> string \<times> string \<Rightarrow> py_error + lp_constraint" where
  "shipping_row warehouses_df wc =
     (case capacity_of warehouses_df (fst wc) of
        Inl e \<Rightarrow> Inl e
      | Inr capacity \<Rightarrow> Inr (shipping_constraint (fst wc) (snd wc) capacity))"

text \<open>
  \<open>build_optimization_model\<close>: the objective first (fixed costs, then transport costs),
  then the constraints in the order 1 to 4.  Every \<open>.values[0]\<close> may raise
  \<open>IndexError\<close>; the first one that does ends the construction.
\<close>

definition build_optimization_model ::
  "customer list \<Rightarrow> warehouse list \<Rightarrow> route list \<Rightarrow> nat \<Rightarrow> nat \<Rightarrow> py_error + lp_model" where
  "build_optimization_model customers_df warehouses_df transport_df MIN_WAREHOUSES MAX_WAREHOUSES =
     (let wids = map warehouse_id warehouses_df;
          cids = map customer_id customers_df
      in case traverse (fixed_cost_term warehouses_df) wids of
           Inl e \<Rightarrow> Inl e
         | Inr fixed_cost_total \<Rightarrow>
       (case traverse (transport_cost_term transport_df) (List.product wids cids) of
           Inl e \<Rightarrow> Inl e
         | Inr transport_cost_total \<Rightarrow>
       (case traverse (demand_row customers_df wids) cids of
           Inl e \<Rightarrow> Inl e
         | Inr demand_rows \<Rightarrow>
       (case traverse (capacity_row warehouses_df cids) wids of
           Inl e \<Rightarrow> Inl e
         | Inr capacity_rows \<Rightarrow>
       (case traverse (shipping_row warehouses_df) (List.product wids cids) of
           Inl e \<Rightarrow> Inl e
         | Inr shipping_rows \<Rightarrow>
           Inr \<lparr>objective = Aff (fixed_cost_total @ transport_cost_total) 0,
                constraints = demand_rows @ capacity_rows
                   @ [min_constraint wids MIN_WAREHOUSES, max_constraint wids MAX_WAREHOUSES]
                   @ shipping_rows,
                open_vars = dict_keys wids,
                ship_vars = dict_keys (List.product wids cids)\<rparr>)))))"

text \<open>
  An assignment is feasible for a model when it satisfies every constraint and the
  declared bounds of the variables: binary \<open>Open\<close>, non-negative \<open>Ship\<close>.
\<close>

definition feasible :: "lp_model \<Rightarrow> assignment \<Rightarrow> bool" where
  "feasible m \<sigma> \<longleftrightarrow>
     list_all (holds \<sigma>) (constraints m) \<and>
     list_all (\<lambda>w. \<sigma> (Open w) = 0 \<or> \<sigma> (Open w) = 1) (open_vars m) \<and>
     list_all (\<lambda>(w, c). 0 \<le> \<sigma> (Ship w c)) (ship_vars m)"


section \<open>Solving and extraction: \<open>solve_and_analyze\<close>\<close>

text \<open>
  The solver is a black box: \<open>model.solve()\<close> either raises or leaves a status code and
  the values of the variables behind.  \<open>var_values = None\<close> stands for a solver that set
  no \<open>varValue\<close>; status \<open>1\<close> is PuLP's \<open>LpStatusOptimal\<close>.
\<close>

record solver_output =
  status :: int
  var_values :: "assignment option"

type_synonym solver = "lp_model \<Rightarrow> py_error + solver_output"

text \<open>
  A row of \<open>shipments\<close>: the keys \<open>from\<close>, \<open>to\<close>, \<open>kg\<close> and \<open>cost\<close>, the first two
  written \<open>shipment_from\<close> and \<open>shipment_to\<close>.
\<close>

record shipment =
  shipment_from :: string
  shipment_to :: string
  kg :: real
  cost :: real

text \<open>
  Python's \<open>round(x, 2)\<close> on a float: the nearest multiple of \<open>0.01\<close>, a tie going to
  the even one.
\<close>

definition round_half_even :: "real \<Rightarrow> int" where
  "round_half_even y =
     (let f = \<lfloor>y\<rfloor>; d = y - real_of_int f
      in if d < 1 / 2 then f
         else if 1 / 2 < d then f + 1
         else if even f then f else f + 1)"

definition round2 :: "real \<Rightarrow> real" where
  "round2 x = real_of_int (round_half_even (x * 100)) / 100"

text \<open>
  The quantities printed for a selected warehouse: \<open>shipped\<close> and \<open>usage\<close>, the
  utilisation in percent.
\<close>

definition shipped :: "customer list \<Rightarrow> assignment \<Rightarrow> string \<Rightarrow> real" where
  "shipped customers_df \<sigma> warehouse =
     sum_list (map (\<lambda>c. \<sigma> (Ship warehouse c)) (map customer_id customers_df))"

definition usage :: "customer list \<Rightarrow> assignment \<Rightarrow> string \<Rightarrow> int \<Rightarrow> real" where
  "usage customers_df \<sigma> warehouse capacity =
     shipped customers_df \<sigma> warehouse / real_of_int capacity * 100"

text \<open>
  The loop over \<open>open_vars\<close>: the accumulator holds \<open>selected_warehouses\<close> and
  \<open>total_fixed\<close>.
\<close>

fun select_loop ::
  "warehouse list \<Rightarrow> assignment \<Rightarrow> string list \<Rightarrow> string list \<times> int
     \<Rightarrow> py_error + string list \<times> int" where
  "select_loop warehouses_df \<sigma> [] acc = Inr acc"
| "select_loop warehouses_df \<sigma> (warehouse # rest) (selected_warehouses, total_fixed) =
     (if \<sigma> (Open warehouse) > 0.5 then
        (case fixed_cost_of warehouses_df warehouse of
           Inl e \<Rightarrow> Inl e
         | Inr fixed \<Rightarrow>
        (case capacity_of warehouses_df warehouse of
           Inl e \<Rightarrow> Inl e
         | Inr capacity \<Rightarrow>
             select_loop warehouses_df \<sigma> rest
               (selected_warehouses @ [warehouse], total_fixed + fixed)))
      else select_loop warehouses_df \<sigma> rest (selected_warehouses, total_fixed))"

text \<open>
  The loop over \<open>ship_vars.items()\<close>: the accumulator holds \<open>shipments\<close> and
  \<open>total_transport\<close>.
\<close>

fun shipment_loop ::
  "route list \<Rightarrow> assignment \<Rightarrow> string list \<Rightarrow> (string \<times> string) list
     \<Rightarrow> shipment list \<times> real \<Rightarrow> py_error + shipment list \<times> real" where
  "shipment_loop transport_df \<sigma> selected_warehouses [] acc = Inr acc"
| "shipment_loop transport_df \<sigma> selected_warehouses ((w, c) # rest) (shipments, total_transport) =
     (if \<sigma> (Ship w c) > 0.1 \<and> w \<in> set selected_warehouses then
        (case cost_per_kg_of transport_df w c of
           Inl e \<Rightarrow> Inl e
         | Inr cost_kg \<Rightarrow>
             (let transport = \<sigma> (Ship w c) * cost_kg
              in shipment_loop transport_df \<sigma> selected_warehouses rest
                   (shipments @ [\<lparr>shipment_from = w, shipment_to = c,
                                   kg = round2 (\<sigma> (Ship w c)), cost = round2 transport\<rparr>],
                    total_transport + transport)))
      else shipment_loop transport_df \<sigma> selected_warehouses rest (shipments, total_transport))"

type_synonym results = "shipment list \<times> string list \<times> int \<times> real"

text \<open>
  \<open>solve_and_analyze\<close>.  The objective value is formatted before the status is looked
  at: \<open>pulp.value\<close> of an objective with a term whose variable has no value is \<open>None\<close>,
  and formatting \<open>None\<close> with \<open>:,.2f\<close> raises \<open>TypeError\<close>.  A status other than \<open>1\<close>
  returns \<open>None\<close>.  Otherwise the two loops run; comparing a missing \<open>varValue\<close> with
  a number raises \<open>TypeError\<close> at the first variable.
\<close>

definition solve_and_analyze ::
  "solver \<Rightarrow> lp_model \<Rightarrow> customer list \<Rightarrow> warehouse list \<Rightarrow> route list
     \<Rightarrow> py_error + results option" where
  "solve_and_analyze solve model customers_df warehouses_df transport_df =
     (case solve model of
        Inl e \<Rightarrow> Inl e
      | Inr out \<Rightarrow>
          if var_values out = None \<and> terms (objective model) \<noteq> [] then Inl TypeError
          else if status out \<noteq> 1 then Inr None
          else (case var_values out of
             None \<Rightarrow>
               if open_vars model = [] \<and> ship_vars model = [] then Inr (Some ([], [], 0, 0))
               else Inl TypeError
           | Some \<sigma> \<Rightarrow>
          (case select_loop warehouses_df \<sigma> (open_vars model) ([], 0) of
             Inl e \<Rightarrow> Inl e
           | Inr (selected_warehouses, total_fixed) \<Rightarrow>
          (case shipment_loop transport_df \<sigma> selected_warehouses (ship_vars model) ([], 0) of
             Inl e \<Rightarrow> Inl e
           | Inr (shipments, total_transport) \<Rightarrow>
               Inr (Some (shipments, selected_warehouses, total_fixed, total_transport))))))"


section \<open>The run: \<open>main\<close>\<close>

text \<open>
  The files a run can write.  \<open>data/optimization_shipments.csv\<close> holds the shipment
  rows, \<open>data/optimization_results.txt\<close> the opened warehouses and the two cost totals,
  \<open>results/optimization_summary.txt\<close> the same with the kilograms shipped from each
  opened warehouse.  \<open>None\<close> is a file not written.
\<close>

record files =
  shipments_csv :: "shipment list option"
  results_txt :: "(string list \<times> int \<times> real) option"
  summary_txt :: "(string list \<times> int \<times> real \<times> real list) option"

text \<open>
  \<open>save_optimization_summary\<close> of \<open>utils.py\<close>.  \<open>pd.DataFrame(shipments)\<close> of an empty
  list has no columns, so that \<open>shipment_df['from']\<close>, evaluated for the first opened
  warehouse, raises \<open>KeyError\<close>; the file is written after the loop.
\<close>

definition save_optimization_summary :: "results \<Rightarrow> files \<Rightarrow> (py_error + unit) \<times> files" where
  "save_optimization_summary res fs =
     (case res of (shipment_df, opened_warehouses, fixed, transport) \<Rightarrow>
        if opened_warehouses \<noteq> [] \<and> shipment_df = [] then (Inl KeyError, fs)
        else (Inr (),
              fs\<lparr>summary_txt := Some (opened_warehouses, fixed, transport,
                     map (\<lambda>warehouse. sum_list (map kg
                            (filter (\<lambda>s. shipment_from s = warehouse) shipment_df)))
                         opened_warehouses)\<rparr>))"

text \<open>
  \<open>main\<close>, from the loaded tables on.  \<open>loaded = None\<close> is \<open>load_processed_data\<close>
  failing with \<open>FileNotFoundError\<close> and returning \<open>None\<close>s.  The outcome is the value
  returned, or the exception that ends the run, together with the files.  The test
  \<open>if results\<close> succeeds on every tuple that \<open>solve_and_analyze\<close> returns and fails on
  \<open>None\<close>.  Printing and the creation of the output folders are left out.
\<close>

definition main :: "solver \<Rightarrow> (customer list \<times> warehouse list \<times> route list) option \<Rightarrow> files
    \<Rightarrow> (py_error + results option) \<times> files" where
  "main solve loaded fs =
     (case loaded of
        None \<Rightarrow> (Inr None, fs)
      | Some (customers_df, warehouses_df, transport_df) \<Rightarrow>
     (case calculate_capacity_constraints customers_df warehouses_df of
        (MIN_WAREHOUSES, MAX_WAREHOUSES) \<Rightarrow>
     (case build_optimization_model customers_df warehouses_df transport_df
             MIN_WAREHOUSES MAX_WAREHOUSES of
        Inl e \<Rightarrow> (Inl e, fs)
      | Inr model \<Rightarrow>
     (case solve_and_analyze solve model customers_df warehouses_df transport_df of
        Inl e \<Rightarrow> (Inl e, fs)
      | Inr None \<Rightarrow> (Inr None, fs)
      | Inr (Some res) \<Rightarrow>
          (case res of (shipment_df, opened_warehouses, fixed, transport) \<Rightarrow>
             (let fs1 = fs\<lparr>shipments_csv := Some shipment_df\<rparr>;
                  fs2 = fs1\<lparr>results_txt := Some (opened_warehouses, fixed, transport)\<rparr>
              in case save_optimization_summary res fs2 of
                   (Inl e, fs3) \<Rightarrow> (Inl e, fs3)
                 | (Inr u, fs3) \<Rightarrow> (Inr (Some res), fs3)))))))"


section \<open>Auxiliary notions for the properties\<close>

text \<open>
  The value a table lookup yields when it does not raise.  Within
  \<open>build_optimization_model\<close> the warehouse and customer lookups use identifiers read
  from the same table, so they cannot raise; a route lookup raises when the pair has no
  row in the route table.
\<close>


definition capacity_at :: "warehouse list \<Rightarrow> string \<Rightarrow> int" where
  "capacity_at warehouses_df w = (case capacity_of warehouses_df w of Inl e \<Rightarrow> 0 | Inr v \<Rightarrow> v)"

definition fixed_cost_at :: "warehouse list \<Rightarrow> string \<Rightarrow> int" where
  "fixed_cost_at warehouses_df w = (case fixed_cost_of warehouses_df w of Inl e \<Rightarrow> 0 | Inr v \<Rightarrow> v)"

definition demand_at :: "customer list \<Rightarrow> string \<Rightarrow> real" where
  "demand_at customers_df c = (case demand_of customers_df c of Inl e \<Rightarrow> 0 | Inr v \<Rightarrow> v)"

definition cost_at :: "route list \<Rightarrow> string \<Rightarrow> string \<Rightarrow> real" where
  "cost_at transport_df w c = (case cost_per_kg_of transport_df w c of Inl e \<Rightarrow> 0 | Inr v \<Rightarrow> v)"

text \<open>Every (warehouse, customer) pair has a row in the route table.\<close>

definition routes_present :: "customer list \<Rightarrow> warehouse list \<Rightarrow> route list \<Rightarrow> bool" where
  "routes_present customers_df warehouses_df transport_df \<longleftrightarrow>
     list_all (\<lambda>(w, c). list_ex (\<lambda>r. from_warehouse r = w \<and> to_customer_id r = c) transport_df)
       (List.product (map warehouse_id warehouses_df) (map customer_id customers_df))"

text \<open>
  The model that \<open>build_optimization_model\<close> returns when no lookup raises, with the
  looked-up values written in.
\<close>

definition built_model :: "customer list \<Rightarrow> warehouse list \<Rightarrow> route list \<Rightarrow> nat \<Rightarrow> nat \<Rightarrow> lp_model" where
  "built_model cu wh tr mn mx =
     (let wids = map warehouse_id wh; cids = map customer_id cu in
      \<lparr>objective = Aff (map (\<lambda>w. (real_of_int (fixed_cost_at wh w), Open w)) wids
                        @ map (\<lambda>wc. (cost_at tr (fst wc) (snd wc), Ship (fst wc) (snd wc)))
                            (List.product wids cids)) 0,
       constraints = map (\<lambda>c. demand_constraint wids c (demand_at cu c)) cids
          @ map (\<lambda>w. capacity_constraint cids w (capacity_at wh w)) wids
          @ [min_constraint wids mn, max_constraint wids mx]
          @ map (\<lambda>wc. shipping_constraint (fst wc) (snd wc) (capacity_at wh (fst wc)))
              (List.product wids cids),
       open_vars = dict_keys wids,
       ship_vars = dict_keys (List.product wids cids)\<rparr>)"

text \<open>
  What the two loops of \<open>solve_and_analyze\<close> compute: the warehouses selected, the test
  that keeps a shipment variable, the shipment row written for a kept variable and its
  transport cost.
\<close>

definition selected_of :: "assignment \<Rightarrow> string list \<Rightarrow> string list" where
  "selected_of \<sigma> keys = filter (\<lambda>w. \<sigma> (Open w) > 0.5) keys"

definition kept :: "assignment \<Rightarrow> string list \<Rightarrow> string \<times> string \<Rightarrow> bool" where
  "kept \<sigma> selected wc \<longleftrightarrow> \<sigma> (Ship (fst wc) (snd wc)) > 0.1 \<and> fst wc \<in> set selected"

definition shipment_row :: "route list \<Rightarrow> assignment \<Rightarrow> string \<times> string \<Rightarrow> shipment" where
  "shipment_row transport_df \<sigma> wc =
     \<lparr>shipment_from = fst wc, shipment_to = snd wc,
      kg = round2 (\<sigma> (Ship (fst wc) (snd wc))),
      cost = round2 (\<sigma> (Ship (fst wc) (snd wc)) * cost_at transport_df (fst wc) (snd wc))\<rparr>"

definition transport_of :: "route list \<Rightarrow> assignment \<Rightarrow> string \<times> string \<Rightarrow> real" where
  "transport_of transport_df \<sigma> wc =
     \<sigma> (Ship (fst wc) (snd wc)) * cost_at transport_df (fst wc) (snd wc)"


section \<open>Concrete instances\<close>

text \<open>
  The scenario of the specification: two facilities (capacities 100 and 50, fixed costs
  1000 and 400), two demand points (demands 60 and 40), and the dense route table with
  costs 2, 3, 4, 1 for the pairs (A,1), (A,2), (B,1), (B,2).
\<close>

definition scenario_customers :: "customer list" where
  "scenario_customers =
     [\<lparr>customer_id = ''1'', monthly_demand_kg = 60\<rparr>,
      \<lparr>customer_id = ''2'', monthly_demand_kg = 40\<rparr>]"

definition scenario_warehouses :: "warehouse list" where
  "scenario_warehouses =
     [\<lparr>warehouse_id = ''A'', monthly_capacity = 100, fixed_cost = 1000\<rparr>,
      \<lparr>warehouse_id = ''B'', monthly_capacity = 50, fixed_cost = 400\<rparr>]"

definition scenario_routes :: "route list" where
  "scenario_routes =
     [\<lparr>from_warehouse = ''A'', to_customer_id = ''1'', cost_per_kg = 2\<rparr>,
      \<lparr>from_warehouse = ''A'', to_customer_id = ''2'', cost_per_kg = 3\<rparr>,
      \<lparr>from_warehouse = ''B'', to_customer_id = ''1'', cost_per_kg = 4\<rparr>,
      \<lparr>from_warehouse = ''B'', to_customer_id = ''2'', cost_per_kg = 1\<rparr>]"

text \<open>A single facility of capacity 100 serving a single demand point.\<close>

definition single_warehouse :: "warehouse list" where
  "single_warehouse = [\<lparr>warehouse_id = ''A'', monthly_capacity = 100, fixed_cost = 1000\<rparr>]"

definition single_customer :: "real \<Rightarrow> customer list" where
  "single_customer demand = [\<lparr>customer_id = ''1'', monthly_demand_kg = demand\<rparr>]"

definition single_route :: "real \<Rightarrow> route list" where
  "single_route price = [\<lparr>from_warehouse = ''A'', to_customer_id = ''1'', cost_per_kg = price\<rparr>]"

text \<open>Three facilities listed in ascending order of capacity.\<close>

definition ascending_warehouses :: "warehouse list" where
  "ascending_warehouses =
     [\<lparr>warehouse_id = ''C'', monthly_capacity = 30, fixed_cost = 300\<rparr>,
      \<lparr>warehouse_id = ''B'', monthly_capacity = 50, fixed_cost = 400\<rparr>,
      \<lparr>warehouse_id = ''A'', monthly_capacity = 100, fixed_cost = 1000\<rparr>]"

text \<open>Two facilities whose joint capacity of 50 falls short of a demand of 100.\<close>

definition short_warehouses :: "warehouse list" where
  "short_warehouses =
     [\<lparr>warehouse_id = ''A'', monthly_capacity = 30, fixed_cost = 1000\<rparr>,
      \<lparr>warehouse_id = ''B'', monthly_capacity = 20, fixed_cost = 1000\<rparr>]"

text \<open>The solution of the scenario: only facility A is opened and serves both points.\<close>

definition scenario_assignment :: assignment where
  "scenario_assignment =
     (\<lambda>v. case v of
        Open w \<Rightarrow> if w = ''A'' then 1 else 0
      | Ship w c \<Rightarrow> if w = ''A'' then (if c = ''1'' then 60 else if c = ''2'' then 40 else 0) else 0)"

definition scenario_solver :: solver where
  "scenario_solver = (\<lambda>m. Inr \<lparr>status = 1, var_values = Some scenario_assignment\<rparr>)"

text \<open>The single facility opened and shipping a sixteenth of a unit.\<close>

definition small_assignment :: assignment where
  "small_assignment = (\<lambda>v. case v of Open w \<Rightarrow> 1 | Ship w c \<Rightarrow> 1 / 16)"

definition small_solver :: solver where
  "small_solver = (\<lambda>m. Inr \<lparr>status = 1, var_values = Some small_assignment\<rparr>)"

text \<open>A run on the short-capacity instance for which the solver reports infeasibility.\<close>

definition short_routes :: "route list" where
  "short_routes =
     [\<lparr>from_warehouse = ''A'', to_customer_id = ''1'', cost_per_kg = 2\<rparr>,
      \<lparr>from_warehouse = ''B'', to_customer_id = ''1'', cost_per_kg = 3\<rparr>]"

definition infeasible_solver :: solver where
  "infeasible_solver = (\<lambda>m. Inr \<lparr>status = - 1, var_values = Some (\<lambda>v. 0)\<rparr>)"

definition no_files :: files where
  "no_files = \<lparr>shipments_csv = None, results_txt = None, summary_txt = None\<rparr>"

text \<open>The single facility opened and shipping nothing.\<close>

definition idle_assignment :: assignment where
  "idle_assignment = (\<lambda>v. case v of Open w \<Rightarrow> 1 | Ship w c \<Rightarrow> 0)"

definition idle_solver :: solver where
  "idle_solver = (\<lambda>m. Inr \<lparr>status = 1, var_values = Some idle_assignment\<rparr>)"

text \<open>
  Three shipments between two warehouses and two destinations: the pair (A, Y) has a
  cost and a distance but no weight, the pair (B, X) has no shipment at all.
  \<open>gap_row\<close> writes a row of \<open>merged_data\<close>.
\<close>

definition gap_shipments :: "shipment_record list" where
  "gap_shipments =
     [\<lparr>Origin_Warehouse = ''A'', Destination = ''X'', Cost = Num 8, Weight_kg = Num 2,
       Distance_miles = Num 4\<rparr>,
      \<lparr>Origin_Warehouse = ''B'', Destination = ''Y'', Cost = Num 4, Weight_kg = Num 2,
       Distance_miles = Num 1\<rparr>,
      \<lparr>Origin_Warehouse = ''A'', Destination = ''Y'', Cost = Num 6, Weight_kg = NaN,
       Distance_miles = Num 2\<rparr>]"

definition gap_row :: "string \<Rightarrow> string \<Rightarrow> float64 \<Rightarrow> float64 \<Rightarrow> float64 \<Rightarrow> float64 \<Rightarrow> cost_record" where
  "gap_row w c k g d p =
     \<lparr>Origin_Warehouse = w, Destination = c, Cost = k, Weight_kg = g, Distance_miles = d,
      observed_cost_per_kg = p\<rparr>"


section \<open>Properties of the route gap fill\<close>

subsection \<open>Means of present values\<close>

lemma fsum_Num_aux: "foldl fadd (Num a) (map Num xs) = Num (a + sum_list xs)"
  by (induction xs arbitrary: a) (simp_all add: add.assoc)

lemma fmean_Num:
  "xs \<noteq> [] \<Longrightarrow> fmean (map Num xs) = Num (sum_list xs / real (length xs))"
  by (simp add: fmean_def notna_def fsum_def fsum_Num_aux Let_def)

subsection \<open>The rows of the result\<close>

lemma length_create: "length (create_transportation_costs sh) = length (merged_data sh)"
  by (simp add: create_transportation_costs_def Let_def)

lemma nth_create:
  "i < length (merged_data sh) \<Longrightarrow>
   create_transportation_costs sh ! i =
     cost_record.extend (merged_data sh ! i)
       (final_record.fields (fillna (observed_cost_per_kg (merged_data sh ! i))
          (estimated_cost_per_kg (merged_data sh) (merged_data sh ! i))))"
  by (simp add: create_transportation_costs_def Let_def)

lemma extend_fields:
  "observed_cost_per_kg (cost_record.extend r (final_record.fields x)) = observed_cost_per_kg r"
  "final_cost_per_kg (cost_record.extend r (final_record.fields x)) = x"
  "Distance_miles (cost_record.extend r (final_record.fields x)) = Distance_miles r"
  "Cost (cost_record.extend r (final_record.fields x)) = Cost r"
  "Weight_kg (cost_record.extend r (final_record.fields x)) = Weight_kg r"
  "Origin_Warehouse (cost_record.extend r (final_record.fields x)) = Origin_Warehouse r"
  "Destination (cost_record.extend r (final_record.fields x)) = Destination r"
  by (simp_all add: cost_record.extend_def final_record.fields_def)

subsection \<open>The example evaluated\<close>

lemma gap_merged:
  "merged_data gap_shipments =
     [gap_row ''A'' ''X'' (Num 8) (Num 2) (Num 4) (Num 4),
      gap_row ''A'' ''Y'' (Num 6) NaN (Num 2) NaN,
      gap_row ''B'' ''X'' NaN NaN NaN NaN,
      gap_row ''B'' ''Y'' (Num 4) (Num 2) (Num 1) (Num 2)]"
  by (simp add: merged_data_def merge_left_def all_combinations_def cost_data_def
      cost_data_row_def gap_shipments_def gap_row_def fmean_def fsum_def notna_def Let_def)

lemma gap_avg: "avg_mile_cost (merged_data gap_shipments) = Num 3"
  unfolding gap_merged
  by (simp add: avg_mile_cost_def gap_row_def fmean_def fsum_def notna_def Let_def)

lemma gap_weight: "fmean (map Weight_kg (merged_data gap_shipments)) = Num 2"
  unfolding gap_merged
  by (simp add: gap_row_def fmean_def fsum_def notna_def Let_def)

lemma gap_final:
  "map final_cost_per_kg (create_transportation_costs gap_shipments) = [Num 4, Num 3, NaN, Num 2]"
  unfolding create_transportation_costs_def Let_def estimated_cost_per_kg_def estimated_cost_def
    gap_avg gap_weight
  unfolding gap_merged
  by (simp add: gap_row_def fillna_def cost_record.extend_def final_record.fields_def)

lemma gap_spec_per_kg:
  "spec_filled_cost observed_cost_per_kg (merged_data gap_shipments)
     (gap_row ''A'' ''Y'' (Num 6) NaN (Num 2) NaN) = Num (12 / 5)"
  unfolding gap_merged
  by (simp add: spec_filled_cost_def gap_row_def fmean_def fsum_def notna_def Let_def)

lemma gap_spec_cost:
  "spec_filled_cost Cost (merged_data gap_shipments)
     (gap_row ''A'' ''Y'' (Num 6) NaN (Num 2) NaN) = Num (36 / 7)"
  unfolding gap_merged
  by (simp add: spec_filled_cost_def gap_row_def fmean_def fsum_def notna_def Let_def)

subsection \<open>The filled-in cost\<close>

text \<open>
  Claim C1, as the specification states it: a route without an observed cost per unit
  gets the distance times the ratio of the mean observed cost to the mean observed
  distance.  The code takes the mean of the ratios \<open>Cost / Distance_miles\<close> instead of
  the ratio of the means, and divides the estimate by the mean weight.  For the pair
  (A, Y) of the example, with distance \<open>2\<close>, the code fills in \<open>3\<close>; the formula of the
  specification gives \<open>12/5\<close> when the cost is the cost per kilogram, and \<open>36/7\<close>
  when it is the column \<open>Cost\<close>.
\<close>

theorem gap_fill_counterexample:
  "observed_cost_per_kg (merged_data gap_shipments ! 1) = NaN \<and>
   Distance_miles (merged_data gap_shipments ! 1) = Num 2 \<and>
   final_cost_per_kg (create_transportation_costs gap_shipments ! 1) = Num 3 \<and>
   spec_filled_cost observed_cost_per_kg (merged_data gap_shipments)
     (merged_data gap_shipments ! 1) = Num (12 / 5) \<and>
   spec_filled_cost Cost (merged_data gap_shipments)
     (merged_data gap_shipments ! 1) = Num (36 / 7)"
proof -
  have row: "merged_data gap_shipments ! 1 = gap_row ''A'' ''Y'' (Num 6) NaN (Num 2) NaN"
    by (simp add: gap_merged)
  have "final_cost_per_kg (create_transportation_costs gap_shipments ! 1)
      = map final_cost_per_kg (create_transportation_costs gap_shipments) ! 1"
    by (simp add: length_create gap_merged)
  then have final: "final_cost_per_kg (create_transportation_costs gap_shipments ! 1) = Num 3"
    by (simp add: gap_final)
  show ?thesis
    unfolding row using final gap_spec_per_kg gap_spec_cost
    by (simp add: gap_row_def)
qed

text \<open>
  Claim C1, amended: for every route whose observed cost per unit is absent and whose
  distance is present, the filled-in cost equals the distance multiplied by the mean of
  the ratios cost / distance and divided by the mean weight, both means taken over the
  routes where the value is present.
\<close>

theorem gap_fill_formula:
  assumes "i < length (merged_data shipments_df)"
    and "observed_cost_per_kg (merged_data shipments_df ! i) = NaN"
    and "Distance_miles (merged_data shipments_df ! i) \<noteq> NaN"
  shows "final_cost_per_kg (create_transportation_costs shipments_df ! i) =
           fdiv (fmul (Distance_miles (merged_data shipments_df ! i))
                      (fmean (map (\<lambda>r. fdiv (Cost r) (Distance_miles r)) (merged_data shipments_df))))
                (fmean (map Weight_kg (merged_data shipments_df)))"
  using assms
  by (simp add: nth_create extend_fields fillna_def estimated_cost_per_kg_def estimated_cost_def
      avg_mile_cost_def)

theorem gap_fill_formula_witness:
  "(1::nat) < length (merged_data gap_shipments) \<and>
   observed_cost_per_kg (merged_data gap_shipments ! 1) = NaN \<and>
   Distance_miles (merged_data gap_shipments ! 1) \<noteq> NaN \<and>
   final_cost_per_kg (create_transportation_costs gap_shipments ! 1) =
     fdiv (fmul (Distance_miles (merged_data gap_shipments ! 1))
                (fmean (map (\<lambda>r. fdiv (Cost r) (Distance_miles r)) (merged_data gap_shipments))))
          (fmean (map Weight_kg (merged_data gap_shipments)))"
proof -
  have h1: "(1::nat) < length (merged_data gap_shipments)"
    by (simp add: gap_merged)
  have h2: "observed_cost_per_kg (merged_data gap_shipments ! 1) = NaN"
    by (simp add: gap_merged gap_row_def)
  have h3: "Distance_miles (merged_data gap_shipments ! 1) \<noteq> NaN"
    by (simp add: gap_merged gap_row_def)
  from gap_fill_formula [OF h1 h2 h3] h1 h2 h3 show ?thesis by blast
qed

subsection \<open>Observed costs are kept\<close>

text \<open>
  Claim C10: the gap fill changes only routes without an observed cost per unit.  Where
  the observed cost per unit is present the final cost equals it; where the final cost
  differs from the observed one, the observed one is missing and the final cost is the
  estimate derived from the distance.
\<close>

theorem gap_fill_frame:
  assumes "i < length (merged_data shipments_df)"
  shows "(observed_cost_per_kg (merged_data shipments_df ! i) \<noteq> NaN \<longrightarrow>
            final_cost_per_kg (create_transportation_costs shipments_df ! i)
              = observed_cost_per_kg (merged_data shipments_df ! i)) \<and>
         (final_cost_per_kg (create_transportation_costs shipments_df ! i)
              \<noteq> observed_cost_per_kg (merged_data shipments_df ! i) \<longrightarrow>
            observed_cost_per_kg (merged_data shipments_df ! i) = NaN \<and>
            final_cost_per_kg (create_transportation_costs shipments_df ! i)
              = estimated_cost_per_kg (merged_data shipments_df) (merged_data shipments_df ! i))"
  using assms by (simp add: nth_create extend_fields fillna_def)

theorem gap_fill_frame_witness:
  "(0::nat) < length (merged_data gap_shipments) \<and>
   observed_cost_per_kg (merged_data gap_shipments ! 0) \<noteq> NaN \<and>
   final_cost_per_kg (create_transportation_costs gap_shipments ! 0)
     = observed_cost_per_kg (merged_data gap_shipments ! 0) \<and>
   (1::nat) < length (merged_data gap_shipments) \<and>
   final_cost_per_kg (create_transportation_costs gap_shipments ! 1)
     \<noteq> observed_cost_per_kg (merged_data gap_shipments ! 1) \<and>
   observed_cost_per_kg (merged_data gap_shipments ! 1) = NaN \<and>
   final_cost_per_kg (create_transportation_costs gap_shipments ! 1)
     = estimated_cost_per_kg (merged_data gap_shipments) (merged_data gap_shipments ! 1)"
proof -
  have h0: "(0::nat) < length (merged_data gap_shipments)"
    and h1: "(1::nat) < length (merged_data gap_shipments)"
    by (simp_all add: gap_merged)
  have p0: "observed_cost_per_kg (merged_data gap_shipments ! 0) \<noteq> NaN"
    by (simp add: gap_merged gap_row_def)
  have "final_cost_per_kg (create_transportation_costs gap_shipments ! 1)
      = map final_cost_per_kg (create_transportation_costs gap_shipments) ! 1"
    by (simp add: length_create gap_merged)
  then have "final_cost_per_kg (create_transportation_costs gap_shipments ! 1) = Num 3"
    by (simp add: gap_final)
  then have p1: "final_cost_per_kg (create_transportation_costs gap_shipments ! 1)
     \<noteq> observed_cost_per_kg (merged_data gap_shipments ! 1)"
    by (simp add: gap_merged gap_row_def)
  from gap_fill_frame [OF h0] gap_fill_frame [OF h1] h0 h1 p0 p1 show ?thesis by blast
qed


section \<open>Properties of the feasible-range estimator\<close>

subsection \<open>The loop\<close>

lemma min_warehouses_loop_none:
  "(\<forall>k. 1 \<le> k \<and> k \<le> length ws \<longrightarrow>
      real_of_int (cur + sum_list (map monthly_capacity (take k ws))) < td)
   \<Longrightarrow> min_warehouses_loop td ws cur i = 0"
proof (induction ws arbitrary: cur i)
  case Nil
  then show ?case by simp
next
  case (Cons w ws)
  have first: "real_of_int (cur + monthly_capacity w) < td"
    using Cons.prems [rule_format, of 1] by simp
  have rest: "\<forall>k. 1 \<le> k \<and> k \<le> length ws \<longrightarrow>
      real_of_int ((cur + monthly_capacity w) + sum_list (map monthly_capacity (take k ws))) < td"
  proof (intro allI impI)
    fix k assume "1 \<le> k \<and> k \<le> length ws"
    then have "1 \<le> Suc k \<and> Suc k \<le> length (w # ws)" by simp
    from Cons.prems [rule_format, OF this] show
      "real_of_int ((cur + monthly_capacity w) + sum_list (map monthly_capacity (take k ws))) < td"
      by (simp add: add.assoc)
  qed
  show ?case using first Cons.IH [OF rest] by (simp add: Let_def)
qed

lemma min_warehouses_loop_first:
  "1 \<le> j \<Longrightarrow> j \<le> length ws \<Longrightarrow>
   td \<le> real_of_int (cur + sum_list (map monthly_capacity (take j ws))) \<Longrightarrow>
   (\<forall>k. 1 \<le> k \<and> k < j \<longrightarrow> real_of_int (cur + sum_list (map monthly_capacity (take k ws))) < td)
   \<Longrightarrow> min_warehouses_loop td ws cur i = i + j - 1"
proof (induction ws arbitrary: cur i j)
  case Nil
  then show ?case by simp
next
  case (Cons w ws)
  show ?case
  proof (cases "j = 1")
    case True
    with Cons.prems(3) show ?thesis by (simp add: Let_def)
  next
    case False
    with Cons.prems(1) obtain j' where j: "j = Suc j'" "1 \<le> j'"
      by (cases j) auto
    have first: "real_of_int (cur + monthly_capacity w) < td"
      using Cons.prems(4) [rule_format, of 1] j by simp
    have a: "j' \<le> length ws" using Cons.prems(2) j by simp
    have b: "td \<le> real_of_int ((cur + monthly_capacity w) + sum_list (map monthly_capacity (take j' ws)))"
      using Cons.prems(3) j by (simp add: add.assoc)
    have c: "\<forall>k. 1 \<le> k \<and> k < j' \<longrightarrow>
        real_of_int ((cur + monthly_capacity w) + sum_list (map monthly_capacity (take k ws))) < td"
    proof (intro allI impI)
      fix k assume "1 \<le> k \<and> k < j'"
      then have "1 \<le> Suc k \<and> Suc k < j" using j by simp
      from Cons.prems(4) [rule_format, OF this] show
        "real_of_int ((cur + monthly_capacity w) + sum_list (map monthly_capacity (take k ws))) < td"
        by (simp add: add.assoc)
    qed
    have "min_warehouses_loop td ws (cur + monthly_capacity w) (Suc i) = Suc i + j' - 1"
      by (rule Cons.IH [OF j(2) a b c])
    with first j show ?thesis by (simp add: Let_def)
  qed
qed

subsection \<open>Sorting keeps the total\<close>

lemma sum_list_insort_key:
  "sum_list (map f (insort_key g x xs)) = (f x :: int) + sum_list (map f xs)"
  by (induction xs) auto

lemma sum_list_sort_key:
  "sum_list (map f (sort_key g xs)) = (sum_list (map f xs) :: int)"
  by (induction xs) (auto simp: sum_list_insort_key)

lemma sum_warehouses_sorted:
  "sum_list (map monthly_capacity (warehouses_sorted wh)) = total_capacity_of wh"
proof -
  have "sum_list (map monthly_capacity (rev (sort_key monthly_capacity wh)))
      = sum_list (rev (map monthly_capacity (sort_key monthly_capacity wh)))"
    by (simp only: rev_map)
  then show ?thesis
    by (simp add: warehouses_sorted_def total_capacity_of_def sum_list_rev sum_list_sort_key)
qed

lemma length_warehouses_sorted: "length (warehouses_sorted wh) = length wh"
  by (simp add: warehouses_sorted_def)

lemma set_warehouses_sorted: "set (warehouses_sorted wh) = set wh"
  by (simp add: warehouses_sorted_def)

lemma sum_list_take_le:
  assumes nn: "\<forall>x\<in>set xs. (0::int) \<le> x"
  shows "sum_list (take k xs) \<le> sum_list xs"
proof -
  have "sum_list (take k xs @ drop k xs) = sum_list (take k xs) + sum_list (drop k xs)"
    by (rule sum_list_append)
  then have "sum_list xs = sum_list (take k xs) + sum_list (drop k xs)"
    by simp
  moreover have "0 \<le> sum_list (drop k xs)"
    using nn by (intro sum_list_nonneg) (auto dest: in_set_dropD)
  ultimately show ?thesis by simp
qed

subsection \<open>The sorted table holds the capacities in descending order\<close>

lemma map_insort_key:
  "map f (insort_key f x xs) = insort (f x) (map f xs)"
  by (induction xs) auto

lemma map_sort_key: "map f (sort_key f xs) = sort (map f xs)"
  by (induction xs) (auto simp: map_insort_key)

lemma capacities_warehouses_sorted:
  "map monthly_capacity (warehouses_sorted wh) = capacities_descending wh"
proof -
  have "map monthly_capacity (rev (sort_key monthly_capacity wh))
      = rev (map monthly_capacity (sort_key monthly_capacity wh))"
    by (simp only: rev_map)
  then show ?thesis
    by (simp only: warehouses_sorted_def capacities_descending_def map_sort_key)
qed

lemma mset_warehouses_sorted: "mset (warehouses_sorted wh) = mset wh"
  by (simp add: warehouses_sorted_def)

lemma descending_warehouses_sorted:
  "sorted_wrt (\<lambda>a b. monthly_capacity b \<le> monthly_capacity a) (warehouses_sorted wh)"
proof -
  have "sorted (map monthly_capacity (sort_key monthly_capacity wh))"
    by (rule sorted_sort_key)
  then have "sorted_wrt (\<lambda>a b. monthly_capacity a \<le> monthly_capacity b) (sort_key monthly_capacity wh)"
    by (simp add: sorted_map)
  then show ?thesis
    by (simp add: warehouses_sorted_def sorted_wrt_rev)
qed

lemma descending_capacities: "sorted_wrt (\<lambda>a b. b \<le> a) (capacities_descending wh)"
  by (simp add: capacities_descending_def sorted_wrt_rev)

lemma mset_capacities_descending:
  "mset (capacities_descending wh) = mset (map monthly_capacity wh)"
  by (simp add: capacities_descending_def)

lemma take_descending_greatest:
  "sorted_wrt (\<lambda>a b. b \<le> a) xs \<Longrightarrow> M \<subseteq># mset xs \<Longrightarrow> size M = k \<Longrightarrow>
   sum_mset M \<le> (sum_list (take k xs) :: int)"
proof (induction xs arbitrary: M k)
  case Nil
  then show ?case by simp
next
  case (Cons x xs)
  from Cons.prems(1) have sorted: "sorted_wrt (\<lambda>a b. b \<le> a) xs"
    and top: "\<And>y. y \<in> set xs \<Longrightarrow> y \<le> x"
    by simp_all
  show ?case
  proof (cases k)
    case 0
    with Cons.prems(3) show ?thesis by simp
  next
    case (Suc k')
    show ?thesis
    proof (cases "x \<in># M")
      case True
      define M' where "M' = M - {#x#}"
      have M: "M = add_mset x M'" using True by (simp add: M'_def)
      have sub: "M' \<subseteq># mset xs" using Cons.prems(2) unfolding M by simp
      have sz: "size M' = k'" using Cons.prems(3) Suc unfolding M by simp
      from Cons.IH [OF sorted sub sz] show ?thesis
        unfolding M Suc by simp
    next
      case False
      have sub: "M \<subseteq># mset xs"
      proof (rule mset_subset_eqI)
        fix a
        have le: "count M a \<le> count (mset (x # xs)) a"
          using Cons.prems(2) by (rule mset_subset_eq_count)
        show "count M a \<le> count (mset xs) a"
        proof (cases "a = x")
          case True
          with False have "count M a = 0" by (simp add: not_in_iff)
          then show ?thesis by simp
        next
          case neq: False
          with le show ?thesis by simp
        qed
      qed
      from Cons.prems(3) Suc obtain y where y: "y \<in># M"
        by (metis size_eq_Suc_imp_elem)
      define M' where "M' = M - {#y#}"
      have M: "M = add_mset y M'" using y by (simp add: M'_def)
      have sub': "M' \<subseteq># mset xs"
        using sub unfolding M by (metis mset_subset_eq_insertD subset_mset.less_le)
      have sz: "size M' = k'" using Cons.prems(3) Suc unfolding M by simp
      have "y \<in> set xs" using y sub by (metis mset_subset_eqD set_mset_mset)
      then have "y \<le> x" by (rule top)
      with Cons.IH [OF sorted sub' sz] show ?thesis
        unfolding M Suc by simp
    qed
  qed
qed

lemma largest_capacity_greatest:
  assumes "mset ys \<subseteq># mset warehouses_df"
  shows "sum_list (map monthly_capacity ys) \<le> largest_capacity warehouses_df (length ys)"
proof -
  have "image_mset monthly_capacity (mset ys) \<subseteq># image_mset monthly_capacity (mset warehouses_df)"
    using assms by (rule image_mset_subseteq_mono)
  then have sub: "mset (map monthly_capacity ys) \<subseteq># mset (capacities_descending warehouses_df)"
    by (simp add: mset_capacities_descending)
  have "sum_mset (mset (map monthly_capacity ys))
      \<le> sum_list (take (length ys) (capacities_descending warehouses_df))"
    by (rule take_descending_greatest [OF descending_capacities sub]) simp
  moreover have "sum_mset (mset (map monthly_capacity ys)) = sum_list (map monthly_capacity ys)"
    by (rule sum_mset_sum_list)
  ultimately show ?thesis
    by (simp only: largest_capacity_def)
qed

lemma largest_capacity_attained:
  "\<exists>ys. mset ys \<subseteq># mset warehouses_df \<and> length ys = min k (length warehouses_df) \<and>
        sum_list (map monthly_capacity ys) = largest_capacity warehouses_df k"
proof (intro exI conjI)
  let ?ys = "take k (warehouses_sorted warehouses_df)"
  have "mset ?ys \<subseteq># mset (warehouses_sorted warehouses_df)"
    by (metis append_take_drop_id mset_append mset_subset_eq_add_left)
  then show "mset ?ys \<subseteq># mset warehouses_df" by (simp add: mset_warehouses_sorted)
  show "length ?ys = min k (length warehouses_df)"
    by (simp add: length_warehouses_sorted min.commute)
  show "sum_list (map monthly_capacity ?ys) = largest_capacity warehouses_df k"
    by (simp add: largest_capacity_def take_map [symmetric] capacities_warehouses_sorted)
qed

lemma largest_capacity_sorted:
  "largest_capacity wh k = sum_list (map monthly_capacity (take k (warehouses_sorted wh)))"
  by (simp add: largest_capacity_def capacities_warehouses_sorted [symmetric] take_map)

subsection \<open>The range returned when capacity suffices\<close>

text \<open>
  Claim C3, as the specification states it: for a non-empty facility table whose total
  capacity is at least the total demand, \<open>maxFacilities\<close> is the number of facilities and
  \<open>minFacilities\<close> is the least \<open>k\<close> such that the \<open>k\<close> largest capacities sum to at least
  the total demand.  The loop adds the first capacity before it compares, so it never
  answers \<open>0\<close>: with a total demand of \<open>0\<close> the empty selection (\<open>k = 0\<close>) already
  reaches the demand, yet the estimator returns \<open>1\<close>.
\<close>

theorem estimator_least_counterexample:
  "single_warehouse \<noteq> [] \<and>
   total_demand_of (single_customer 0) \<le> real_of_int (total_capacity_of single_warehouse) \<and>
   total_demand_of (single_customer 0) \<le> real_of_int (largest_capacity single_warehouse 0) \<and>
   fst (calculate_capacity_constraints (single_customer 0) single_warehouse) = 1"
  by (simp add: single_warehouse_def single_customer_def total_demand_of_def
      total_capacity_of_def largest_capacity_def calculate_capacity_constraints_def
      warehouses_sorted_def Let_def)

text \<open>
  Claim C3, amended: under the same hypotheses \<open>maxFacilities\<close> is the number of
  facilities, and \<open>minFacilities\<close> is the least \<open>k \<ge> 1\<close> such that the \<open>k\<close> largest
  capacities sum to at least the total demand: it lies between \<open>1\<close> and the number of
  facilities, the \<open>minFacilities\<close> largest capacities reach the demand, and no smaller
  \<open>k \<ge> 1\<close> does.  When the total demand is positive this is the least \<open>k\<close> of the
  original statement.  The last two parts say the same without any sorting: some
  \<open>minFacilities\<close> facilities of the table reach the demand together, and no selection
  of fewer (at least one) does.
\<close>

theorem estimator_range:
  assumes nonempty: "warehouses_df \<noteq> []"
    and enough: "total_demand_of customers_df \<le> real_of_int (total_capacity_of warehouses_df)"
  shows "snd (calculate_capacity_constraints customers_df warehouses_df) = length warehouses_df \<and>
         1 \<le> fst (calculate_capacity_constraints customers_df warehouses_df) \<and>
         fst (calculate_capacity_constraints customers_df warehouses_df) \<le> length warehouses_df \<and>
         total_demand_of customers_df \<le> real_of_int (largest_capacity warehouses_df
            (fst (calculate_capacity_constraints customers_df warehouses_df))) \<and>
         (\<forall>k. 1 \<le> k \<and> k < fst (calculate_capacity_constraints customers_df warehouses_df) \<longrightarrow>
            real_of_int (largest_capacity warehouses_df k) < total_demand_of customers_df) \<and>
         (0 < total_demand_of customers_df \<longrightarrow>
            fst (calculate_capacity_constraints customers_df warehouses_df)
              = (LEAST k. total_demand_of customers_df
                   \<le> real_of_int (largest_capacity warehouses_df k))) \<and>
         (\<exists>ys. mset ys \<subseteq># mset warehouses_df \<and>
            length ys = fst (calculate_capacity_constraints customers_df warehouses_df) \<and>
            total_demand_of customers_df \<le> real_of_int (sum_list (map monthly_capacity ys))) \<and>
         (\<forall>ys. mset ys \<subseteq># mset warehouses_df \<and> 1 \<le> length ys \<and>
            length ys < fst (calculate_capacity_constraints customers_df warehouses_df) \<longrightarrow>
            real_of_int (sum_list (map monthly_capacity ys)) < total_demand_of customers_df)"
proof -
  define td where "td = total_demand_of customers_df"
  define ws where "ws = warehouses_sorted warehouses_df"
  define P where "P k \<longleftrightarrow> 1 \<le> k \<and> k \<le> length ws \<and>
      td \<le> real_of_int (sum_list (map monthly_capacity (take k ws)))" for k
  have len: "length ws = length warehouses_df"
    by (simp add: ws_def length_warehouses_sorted)
  have "P (length ws)"
    using nonempty enough len
    by (simp add: P_def td_def ws_def sum_warehouses_sorted Suc_le_eq)
  then obtain j where j: "P j" and least: "\<And>k. k < j \<Longrightarrow> \<not> P k"
    using exists_least_iff [of P] by blast
  have before: "\<forall>k. 1 \<le> k \<and> k < j \<longrightarrow>
      real_of_int (0 + sum_list (map monthly_capacity (take k ws))) < td"
  proof (intro allI impI)
    fix k assume k: "1 \<le> k \<and> k < j"
    with least [of k] j have "\<not> td \<le> real_of_int (sum_list (map monthly_capacity (take k ws)))"
      by (auto simp: P_def)
    then show "real_of_int (0 + sum_list (map monthly_capacity (take k ws))) < td" by simp
  qed
  have "min_warehouses_loop td ws 0 1 = 1 + j - 1"
    using j before by (intro min_warehouses_loop_first) (auto simp: P_def)
  then have m: "fst (calculate_capacity_constraints customers_df warehouses_df) = j"
    by (simp add: calculate_capacity_constraints_def Let_def td_def ws_def)
  have mx: "snd (calculate_capacity_constraints customers_df warehouses_df) = length warehouses_df"
    by (simp add: calculate_capacity_constraints_def Let_def)
  have explicit: "1 \<le> j \<and> j \<le> length warehouses_df \<and>
      td \<le> real_of_int (largest_capacity warehouses_df j) \<and>
      (\<forall>k. 1 \<le> k \<and> k < j \<longrightarrow> real_of_int (largest_capacity warehouses_df k) < td)"
    using j before len by (auto simp: P_def largest_capacity_sorted ws_def)
  have least_eq: "j = (LEAST k. td \<le> real_of_int (largest_capacity warehouses_df k))"
    if pos: "0 < td"
  proof (rule Least_equality [symmetric])
    show "td \<le> real_of_int (largest_capacity warehouses_df j)"
      using explicit by blast
    fix k assume reach: "td \<le> real_of_int (largest_capacity warehouses_df k)"
    show "j \<le> k"
    proof (rule ccontr)
      assume "\<not> j \<le> k"
      then have lt: "k < j" by simp
      have "k \<noteq> 0"
      proof
        assume "k = 0"
        with reach pos show False by (simp add: largest_capacity_def)
      qed
      with lt explicit have "real_of_int (largest_capacity warehouses_df k) < td" by simp
      with reach show False by simp
    qed
  qed
  have some: "\<exists>ys. mset ys \<subseteq># mset warehouses_df \<and> length ys = j \<and>
      td \<le> real_of_int (sum_list (map monthly_capacity ys))"
  proof -
    from largest_capacity_attained [of warehouses_df j] obtain ys
      where "mset ys \<subseteq># mset warehouses_df" "length ys = min j (length warehouses_df)"
        "sum_list (map monthly_capacity ys) = largest_capacity warehouses_df j"
      by blast
    with explicit show ?thesis by (intro exI [of _ ys]) (simp add: min_def)
  qed
  have none: "real_of_int (sum_list (map monthly_capacity ys)) < td"
    if ys: "mset ys \<subseteq># mset warehouses_df \<and> 1 \<le> length ys \<and> length ys < j" for ys
  proof -
    from ys have "sum_list (map monthly_capacity ys) \<le> largest_capacity warehouses_df (length ys)"
      by (intro largest_capacity_greatest) simp
    moreover from ys explicit
    have "real_of_int (largest_capacity warehouses_df (length ys)) < td" by simp
    ultimately show ?thesis by simp
  qed
  show ?thesis
    unfolding m mx using explicit least_eq len some none
    by (simp add: td_def)
qed

lemma ascending_range:
  "calculate_capacity_constraints (single_customer 120) ascending_warehouses = (2, 3)"
  by (simp add: ascending_warehouses_def single_customer_def total_demand_of_def
      calculate_capacity_constraints_def warehouses_sorted_def Let_def)

lemma ascending_largest:
  "largest_capacity ascending_warehouses 1 = 100"
  "largest_capacity ascending_warehouses 2 = 150"
  by (simp_all add: largest_capacity_def capacities_descending_def ascending_warehouses_def
      numeral_2_eq_2)

theorem estimator_range_witness:
  "ascending_warehouses \<noteq> [] \<and>
   total_demand_of (single_customer 120) \<le> real_of_int (total_capacity_of ascending_warehouses) \<and>
   0 < total_demand_of (single_customer 120) \<and>
   calculate_capacity_constraints (single_customer 120) ascending_warehouses = (2, 3) \<and>
   total_demand_of (single_customer 120) \<le> real_of_int (largest_capacity ascending_warehouses 2) \<and>
   real_of_int (largest_capacity ascending_warehouses 1) < total_demand_of (single_customer 120) \<and>
   (2::nat) = (LEAST k. total_demand_of (single_customer 120)
          \<le> real_of_int (largest_capacity ascending_warehouses k))"
proof -
  have h1: "ascending_warehouses \<noteq> []"
    by (simp add: ascending_warehouses_def)
  have h2: "total_demand_of (single_customer 120)
      \<le> real_of_int (total_capacity_of ascending_warehouses)"
    by (simp add: ascending_warehouses_def single_customer_def total_demand_of_def
        total_capacity_of_def)
  have h3: "0 < total_demand_of (single_customer 120)"
    by (simp add: single_customer_def total_demand_of_def)
  have one: "(1::nat) \<le> 1 \<and> (1::nat) < 2" by simp
  from estimator_range [OF h1 h2, unfolded ascending_range fst_conv snd_conv]
  have "total_demand_of (single_customer 120)
          \<le> real_of_int (largest_capacity ascending_warehouses 2)"
    and "\<forall>k. 1 \<le> k \<and> k < 2 \<longrightarrow>
          real_of_int (largest_capacity ascending_warehouses k)
            < total_demand_of (single_customer 120)"
    and "0 < total_demand_of (single_customer 120) \<longrightarrow>
          (2::nat) = (LEAST k. total_demand_of (single_customer 120)
            \<le> real_of_int (largest_capacity ascending_warehouses k))"
    by blast+
  with one h1 h2 h3 ascending_range show ?thesis by blast
qed

subsection \<open>The range returned when capacity falls short\<close>

text \<open>
  Claim C4, as the specification states it: when the capacities of all facilities sum to
  less than the total demand, the estimator signals infeasibility instead of returning a
  minimum facility count.  The function has no \<open>raise\<close> and no error value: with
  capacities 30 and 20 against a demand of 100 it returns the ordinary range \<open>(0, 2)\<close>.
\<close>

theorem estimator_no_signal_counterexample:
  "real_of_int (total_capacity_of short_warehouses) < total_demand_of (single_customer 100) \<and>
   calculate_capacity_constraints (single_customer 100) short_warehouses = (0, 2)"
  by (simp add: short_warehouses_def single_customer_def total_demand_of_def
      total_capacity_of_def calculate_capacity_constraints_def warehouses_sorted_def Let_def)

text \<open>
  Claim C4, amended: when the capacities (none of them negative) of all facilities sum to
  less than the total demand, the estimator returns the minimum \<open>0\<close> together with the
  number of facilities as maximum, so the minimum never exceeds the facility count; no
  error is signalled.
\<close>

theorem estimator_short_capacity:
  assumes nonneg: "\<forall>w\<in>set warehouses_df. 0 \<le> monthly_capacity w"
    and short: "real_of_int (total_capacity_of warehouses_df) < total_demand_of customers_df"
  shows "calculate_capacity_constraints customers_df warehouses_df = (0, length warehouses_df)"
proof -
  define ws where "ws = warehouses_sorted warehouses_df"
  have "min_warehouses_loop (total_demand_of customers_df) ws 0 1 = 0"
  proof (rule min_warehouses_loop_none, intro allI impI)
    fix k
    have "sum_list (take k (map monthly_capacity ws)) \<le> sum_list (map monthly_capacity ws)"
      using nonneg by (intro sum_list_take_le) (simp add: ws_def set_warehouses_sorted)
    then have "sum_list (map monthly_capacity (take k ws)) \<le> total_capacity_of warehouses_df"
      by (simp add: take_map ws_def sum_warehouses_sorted)
    with short show "real_of_int (0 + sum_list (map monthly_capacity (take k ws)))
        < total_demand_of customers_df"
      by simp
  qed
  then show ?thesis
    by (simp add: calculate_capacity_constraints_def Let_def ws_def)
qed

theorem estimator_short_capacity_witness:
  "list_all (\<lambda>w. 0 \<le> monthly_capacity w) short_warehouses \<and>
   real_of_int (total_capacity_of short_warehouses) < total_demand_of (single_customer 100) \<and>
   calculate_capacity_constraints (single_customer 100) short_warehouses
     = (0, length short_warehouses)"
proof -
  have h1: "\<forall>w\<in>set short_warehouses. 0 \<le> monthly_capacity w"
    by (simp add: short_warehouses_def)
  have h2: "real_of_int (total_capacity_of short_warehouses) < total_demand_of (single_customer 100)"
    by (simp add: short_warehouses_def single_customer_def total_demand_of_def
        total_capacity_of_def)
  from estimator_short_capacity [OF h1 h2] h1 h2 show ?thesis
    by (simp add: list_all_iff)
qed


section \<open>Properties of the built model\<close>

subsection \<open>Lookups and the shape of the model\<close>

lemma traverse_map:
  "(\<And>x. x \<in> set xs \<Longrightarrow> f x = Inr (g x)) \<Longrightarrow> traverse f xs = Inr (map g xs)"
  by (induction xs) auto

lemma traverse_Inr_D:
  "traverse f xs = Inr ys \<Longrightarrow> x \<in> set xs \<Longrightarrow> \<exists>y. f x = Inr y"
  by (induction xs arbitrary: ys) (auto split: sum.splits)

lemma values0_filter_Inr:
  "x \<in> set xs \<Longrightarrow> P x \<Longrightarrow> \<exists>v. values0 (map g (filter P xs)) = Inr v"
  by (induction xs) auto

lemma values0_Inr_D:
  "values0 (map g (filter P xs)) = Inr v \<Longrightarrow> \<exists>x\<in>set xs. P x \<and> g x = v"
  by (induction xs) (auto split: if_splits)

lemma capacity_of_Inr:
  "w \<in> set (map warehouse_id wh) \<Longrightarrow> capacity_of wh w = Inr (capacity_at wh w)"
proof -
  assume "w \<in> set (map warehouse_id wh)"
  then obtain r where "r \<in> set wh" "warehouse_id r = w" by auto
  then have "\<exists>v. capacity_of wh w = Inr v"
    unfolding capacity_of_def by (intro values0_filter_Inr) auto
  then show ?thesis by (auto simp: capacity_at_def)
qed

lemma fixed_cost_of_Inr:
  "w \<in> set (map warehouse_id wh) \<Longrightarrow> fixed_cost_of wh w = Inr (fixed_cost_at wh w)"
proof -
  assume "w \<in> set (map warehouse_id wh)"
  then obtain r where "r \<in> set wh" "warehouse_id r = w" by auto
  then have "\<exists>v. fixed_cost_of wh w = Inr v"
    unfolding fixed_cost_of_def by (intro values0_filter_Inr) auto
  then show ?thesis by (auto simp: fixed_cost_at_def)
qed

lemma demand_of_Inr:
  "c \<in> set (map customer_id cu) \<Longrightarrow> demand_of cu c = Inr (demand_at cu c)"
proof -
  assume "c \<in> set (map customer_id cu)"
  then obtain r where "r \<in> set cu" "customer_id r = c" by auto
  then have "\<exists>v. demand_of cu c = Inr v"
    unfolding demand_of_def by (intro values0_filter_Inr) auto
  then show ?thesis by (auto simp: demand_at_def)
qed

lemma cost_per_kg_of_Inr:
  assumes "routes_present cu wh tr" "w \<in> set (map warehouse_id wh)" "c \<in> set (map customer_id cu)"
  shows "cost_per_kg_of tr w c = Inr (cost_at tr w c)"
proof -
  from assms have "list_ex (\<lambda>r. from_warehouse r = w \<and> to_customer_id r = c) tr"
    unfolding routes_present_def list_all_iff by fastforce
  then obtain r where "r \<in> set tr" "from_warehouse r = w \<and> to_customer_id r = c"
    by (auto simp: list_ex_iff)
  then have "\<exists>v. cost_per_kg_of tr w c = Inr v"
    unfolding cost_per_kg_of_def by (intro values0_filter_Inr)
  then show ?thesis by (auto simp: cost_at_def)
qed

lemma cost_per_kg_of_Inr_present:
  "cost_per_kg_of tr w c = Inr v \<Longrightarrow> list_ex (\<lambda>r. from_warehouse r = w \<and> to_customer_id r = c) tr"
  unfolding cost_per_kg_of_def by (auto dest!: values0_Inr_D simp: list_ex_iff)

lemma build_present:
  assumes "routes_present cu wh tr"
  shows "build_optimization_model cu wh tr mn mx = Inr (built_model cu wh tr mn mx)"
proof -
  let ?wids = "map warehouse_id wh" and ?cids = "map customer_id cu"
  have 1: "traverse (fixed_cost_term wh) ?wids
      = Inr (map (\<lambda>w. (real_of_int (fixed_cost_at wh w), Open w)) ?wids)"
    by (rule traverse_map) (simp add: fixed_cost_term_def fixed_cost_of_Inr)
  have 2: "traverse (transport_cost_term tr) (List.product ?wids ?cids)
      = Inr (map (\<lambda>wc. (cost_at tr (fst wc) (snd wc), Ship (fst wc) (snd wc))) (List.product ?wids ?cids))"
  proof (rule traverse_map)
    fix x assume "x \<in> set (List.product ?wids ?cids)"
    then have "fst x \<in> set ?wids" "snd x \<in> set ?cids" by auto
    from cost_per_kg_of_Inr [OF assms this]
    show "transport_cost_term tr x = Inr (cost_at tr (fst x) (snd x), Ship (fst x) (snd x))"
      by (simp add: transport_cost_term_def)
  qed
  have 3: "traverse (demand_row cu ?wids) ?cids
      = Inr (map (\<lambda>c. demand_constraint ?wids c (demand_at cu c)) ?cids)"
    by (rule traverse_map) (simp add: demand_row_def demand_of_Inr)
  have 4: "traverse (capacity_row wh ?cids) ?wids
      = Inr (map (\<lambda>w. capacity_constraint ?cids w (capacity_at wh w)) ?wids)"
    by (rule traverse_map) (simp add: capacity_row_def capacity_of_Inr)
  have 5: "traverse (shipping_row wh) (List.product ?wids ?cids)
      = Inr (map (\<lambda>wc. shipping_constraint (fst wc) (snd wc) (capacity_at wh (fst wc)))
          (List.product ?wids ?cids))"
  proof (rule traverse_map)
    fix x assume "x \<in> set (List.product ?wids ?cids)"
    then have "fst x \<in> set ?wids" by auto
    from capacity_of_Inr [OF this]
    show "shipping_row wh x = Inr (shipping_constraint (fst x) (snd x) (capacity_at wh (fst x)))"
      by (simp add: shipping_row_def)
  qed
  show ?thesis
    unfolding build_optimization_model_def built_model_def Let_def 1 2 3 4 5
    by simp
qed

lemma build_Inr_present:
  assumes "build_optimization_model cu wh tr mn mx = Inr m"
  shows "routes_present cu wh tr"
proof -
  let ?wids = "map warehouse_id wh" and ?cids = "map customer_id cu"
  from assms obtain ys where "traverse (transport_cost_term tr) (List.product ?wids ?cids) = Inr ys"
    unfolding build_optimization_model_def Let_def by (auto split: sum.splits)
  then have "\<And>x. x \<in> set (List.product ?wids ?cids) \<Longrightarrow> \<exists>y. transport_cost_term tr x = Inr y"
    by (rule traverse_Inr_D)
  then have "\<And>x. x \<in> set (List.product ?wids ?cids) \<Longrightarrow>
      list_ex (\<lambda>r. from_warehouse r = fst x \<and> to_customer_id r = snd x) tr"
  proof -
    fix x assume "x \<in> set (List.product ?wids ?cids)"
      and "\<And>x. x \<in> set (List.product ?wids ?cids) \<Longrightarrow> \<exists>y. transport_cost_term tr x = Inr y"
    then obtain y where "transport_cost_term tr x = Inr y" by blast
    then obtain v where "cost_per_kg_of tr (fst x) (snd x) = Inr v"
      by (auto simp: transport_cost_term_def split: sum.splits)
    then show "list_ex (\<lambda>r. from_warehouse r = fst x \<and> to_customer_id r = snd x) tr"
      by (rule cost_per_kg_of_Inr_present)
  qed
  then show ?thesis
    unfolding routes_present_def list_all_iff by (auto simp: case_prod_beta)
qed

lemma build_Inr_iff:
  "build_optimization_model cu wh tr mn mx = Inr m \<longleftrightarrow>
     routes_present cu wh tr \<and> m = built_model cu wh tr mn mx"
  using build_present build_Inr_present by (metis sum.inject(2))

lemma set_dict_keys: "set (dict_keys xs) = set xs"
  by (induction xs) auto

lemma distinct_dict_keys: "distinct (dict_keys xs)"
  by (induction xs) (auto simp: distinct_removeAll)

lemma dict_keys_distinct: "distinct xs \<Longrightarrow> dict_keys xs = xs"
  by (induction xs) (auto simp: set_dict_keys)

lemma member_le_sum_list_real:
  "x \<in> set xs \<Longrightarrow> (\<And>y. y \<in> set xs \<Longrightarrow> (0::real) \<le> y) \<Longrightarrow> x \<le> sum_list xs"
proof (induction xs)
  case Nil
  then show ?case by simp
next
  case (Cons a xs)
  have nn: "0 \<le> sum_list xs" using Cons.prems(2) by (intro sum_list_nonneg) simp
  have a: "0 \<le> a" using Cons.prems(2) by simp
  show ?case
  proof (cases "x = a")
    case True
    with nn show ?thesis by simp
  next
    case False
    with Cons.prems(1) have "x \<in> set xs" by simp
    then have "x \<le> sum_list xs" using Cons.prems(2) by (intro Cons.IH) simp_all
    with a show ?thesis by simp
  qed
qed

lemma holds_demand_constraint:
  "holds \<sigma> (demand_constraint wids c d) \<longleftrightarrow> sum_list (map (\<lambda>w. \<sigma> (Ship w c)) wids) = d"
  by (simp add: demand_constraint_def aff_value_def comp_def)

lemma holds_capacity_constraint:
  "holds \<sigma> (capacity_constraint cids w k) \<longleftrightarrow>
     sum_list (map (\<lambda>c. \<sigma> (Ship w c)) cids) \<le> real_of_int k * \<sigma> (Open w)"
  by (simp add: capacity_constraint_def aff_value_def comp_def)

lemma holds_shipping_constraint:
  "holds \<sigma> (shipping_constraint w c k) \<longleftrightarrow> \<sigma> (Ship w c) \<le> real_of_int k * \<sigma> (Open w)"
  by (simp add: shipping_constraint_def aff_value_def)

lemma holds_min_constraint:
  "holds \<sigma> (min_constraint wids n) \<longleftrightarrow> real n \<le> sum_list (map (\<lambda>w. \<sigma> (Open w)) wids)"
  by (simp add: min_constraint_def aff_value_def comp_def)

lemma holds_max_constraint:
  "holds \<sigma> (max_constraint wids n) \<longleftrightarrow> sum_list (map (\<lambda>w. \<sigma> (Open w)) wids) \<le> real n"
  by (simp add: max_constraint_def aff_value_def comp_def)

lemma capacity_implies_shipping:
  assumes nonneg: "\<And>c'. c' \<in> set cids \<Longrightarrow> 0 \<le> \<sigma> (Ship w c')"
    and cap: "holds \<sigma> (capacity_constraint cids w k)"
    and c: "c \<in> set cids"
  shows "holds \<sigma> (shipping_constraint w c k)"
proof -
  have "\<sigma> (Ship w c) \<le> sum_list (map (\<lambda>c. \<sigma> (Ship w c)) cids)"
    using c nonneg by (intro member_le_sum_list_real) auto
  with cap show ?thesis
    by (simp add: holds_capacity_constraint holds_shipping_constraint)
qed

lemma constraints_built_model:
  "constraints (built_model cu wh tr mn mx) =
     map (\<lambda>c. demand_constraint (map warehouse_id wh) c (demand_at cu c)) (map customer_id cu)
     @ map (\<lambda>w. capacity_constraint (map customer_id cu) w (capacity_at wh w)) (map warehouse_id wh)
     @ [min_constraint (map warehouse_id wh) mn, max_constraint (map warehouse_id wh) mx]
     @ map (\<lambda>wc. shipping_constraint (fst wc) (snd wc) (capacity_at wh (fst wc)))
         (List.product (map warehouse_id wh) (map customer_id cu))"
  by (simp add: built_model_def Let_def)

lemma open_vars_built_model: "open_vars (built_model cu wh tr mn mx) = dict_keys (map warehouse_id wh)"
  by (simp add: built_model_def Let_def)

lemma ship_vars_built_model:
  "ship_vars (built_model cu wh tr mn mx)
     = dict_keys (List.product (map warehouse_id wh) (map customer_id cu))"
  by (simp add: built_model_def Let_def)

lemma objective_built_model:
  "objective (built_model cu wh tr mn mx) =
     Aff (map (\<lambda>w. (real_of_int (fixed_cost_at wh w), Open w)) (map warehouse_id wh)
          @ map (\<lambda>wc. (cost_at tr (fst wc) (snd wc), Ship (fst wc) (snd wc)))
              (List.product (map warehouse_id wh) (map customer_id cu))) 0"
  by (simp add: built_model_def Let_def)

lemma feasible_demand:
  assumes "feasible (built_model cu wh tr mn mx) \<sigma>" "c \<in> set (map customer_id cu)"
  shows "sum_list (map (\<lambda>w. \<sigma> (Ship w c)) (map warehouse_id wh)) = demand_at cu c"
proof -
  from assms(2) have "demand_constraint (map warehouse_id wh) c (demand_at cu c)
      \<in> set (constraints (built_model cu wh tr mn mx))"
    unfolding constraints_built_model by auto
  with assms(1) have "holds \<sigma> (demand_constraint (map warehouse_id wh) c (demand_at cu c))"
    unfolding feasible_def list_all_iff by blast
  then show ?thesis by (simp only: holds_demand_constraint)
qed

lemma feasible_capacity:
  assumes "feasible (built_model cu wh tr mn mx) \<sigma>" "w \<in> set (map warehouse_id wh)"
  shows "sum_list (map (\<lambda>c. \<sigma> (Ship w c)) (map customer_id cu))
      \<le> real_of_int (capacity_at wh w) * \<sigma> (Open w)"
proof -
  from assms(2) have "capacity_constraint (map customer_id cu) w (capacity_at wh w)
      \<in> set (constraints (built_model cu wh tr mn mx))"
    unfolding constraints_built_model by auto
  with assms(1) have "holds \<sigma> (capacity_constraint (map customer_id cu) w (capacity_at wh w))"
    unfolding feasible_def list_all_iff by blast
  then show ?thesis by (simp only: holds_capacity_constraint)
qed

lemma feasible_count:
  assumes "feasible (built_model cu wh tr mn mx) \<sigma>"
  shows "real mn \<le> sum_list (map (\<lambda>w. \<sigma> (Open w)) (map warehouse_id wh))"
    and "sum_list (map (\<lambda>w. \<sigma> (Open w)) (map warehouse_id wh)) \<le> real mx"
proof -
  have "min_constraint (map warehouse_id wh) mn \<in> set (constraints (built_model cu wh tr mn mx))"
    and "max_constraint (map warehouse_id wh) mx \<in> set (constraints (built_model cu wh tr mn mx))"
    unfolding constraints_built_model by auto
  with assms have "holds \<sigma> (min_constraint (map warehouse_id wh) mn)"
    and "holds \<sigma> (max_constraint (map warehouse_id wh) mx)"
    unfolding feasible_def list_all_iff by blast+
  then show "real mn \<le> sum_list (map (\<lambda>w. \<sigma> (Open w)) (map warehouse_id wh))"
    and "sum_list (map (\<lambda>w. \<sigma> (Open w)) (map warehouse_id wh)) \<le> real mx"
    by (simp_all only: holds_min_constraint holds_max_constraint)
qed

lemma feasible_binary:
  assumes "feasible (built_model cu wh tr mn mx) \<sigma>" "w \<in> set (map warehouse_id wh)"
  shows "\<sigma> (Open w) = 0 \<or> \<sigma> (Open w) = 1"
  using assms unfolding feasible_def list_all_iff open_vars_built_model set_dict_keys by blast

lemma feasible_nonneg:
  assumes "feasible (built_model cu wh tr mn mx) \<sigma>"
    "w \<in> set (map warehouse_id wh)" "c \<in> set (map customer_id cu)"
  shows "0 \<le> \<sigma> (Ship w c)"
proof -
  from assms(2,3) have "(w, c) \<in> set (ship_vars (built_model cu wh tr mn mx))"
    unfolding ship_vars_built_model set_dict_keys by simp
  with assms(1) show ?thesis
    unfolding feasible_def list_all_iff by blast
qed

lemma feasible_shipping:
  assumes "feasible (built_model cu wh tr mn mx) \<sigma>"
    "w \<in> set (map warehouse_id wh)" "c \<in> set (map customer_id cu)"
  shows "\<sigma> (Ship w c) \<le> real_of_int (capacity_at wh w) * \<sigma> (Open w)"
proof -
  from assms(2,3) have "(w, c) \<in> set (List.product (map warehouse_id wh) (map customer_id cu))"
    by simp
  then have "(\<lambda>wc. shipping_constraint (fst wc) (snd wc) (capacity_at wh (fst wc))) (w, c)
      \<in> (\<lambda>wc. shipping_constraint (fst wc) (snd wc) (capacity_at wh (fst wc)))
          ` set (List.product (map warehouse_id wh) (map customer_id cu))"
    by (rule imageI)
  then have "shipping_constraint w c (capacity_at wh w)
      \<in> set (constraints (built_model cu wh tr mn mx))"
    unfolding constraints_built_model by simp
  with assms(1) have "holds \<sigma> (shipping_constraint w c (capacity_at wh w))"
    unfolding feasible_def list_all_iff by blast
  then show ?thesis by (simp only: holds_shipping_constraint)
qed


section \<open>Properties of the extraction\<close>

subsection \<open>The loops in closed form\<close>

lemma select_loop_closed:
  "set keys \<subseteq> set (map warehouse_id wh) \<Longrightarrow>
   select_loop wh \<sigma> keys (sel, tf) =
     Inr (sel @ selected_of \<sigma> keys,
          tf + sum_list (map (fixed_cost_at wh) (selected_of \<sigma> keys)))"
proof (induction keys arbitrary: sel tf)
  case Nil
  then show ?case by (simp add: selected_of_def)
next
  case (Cons w keys)
  from Cons.prems have w: "w \<in> set (map warehouse_id wh)" and rest: "set keys \<subseteq> set (map warehouse_id wh)"
    by simp_all
  show ?case
    using Cons.IH [OF rest] fixed_cost_of_Inr [OF w] capacity_of_Inr [OF w]
    by (simp add: selected_of_def)
qed

lemma shipment_loop_closed:
  "(\<And>wc. wc \<in> set keys \<Longrightarrow> cost_per_kg_of tr (fst wc) (snd wc) = Inr (cost_at tr (fst wc) (snd wc))) \<Longrightarrow>
   shipment_loop tr \<sigma> selected keys (sh, tt) =
     Inr (sh @ map (shipment_row tr \<sigma>) (filter (kept \<sigma> selected) keys),
          tt + sum_list (map (transport_of tr \<sigma>) (filter (kept \<sigma> selected) keys)))"
proof (induction keys arbitrary: sh tt)
  case Nil
  then show ?case by simp
next
  case (Cons wc keys)
  obtain w c where wc: "wc = (w, c)" by (cases wc)
  have here: "cost_per_kg_of tr w c = Inr (cost_at tr w c)"
    using Cons.prems [of wc] wc by simp
  have rest: "\<And>x. x \<in> set keys \<Longrightarrow> cost_per_kg_of tr (fst x) (snd x) = Inr (cost_at tr (fst x) (snd x))"
    using Cons.prems by simp
  show ?case
    unfolding wc using Cons.IH [OF rest] here
    by (simp add: kept_def shipment_row_def transport_of_def Let_def)
qed

lemma solve_and_analyze_optimal:
  assumes built: "build_optimization_model cu wh tr mn mx = Inr m"
    and solved: "solve m = Inr out" and st: "status out = 1" and vals: "var_values out = Some \<sigma>"
  shows "solve_and_analyze solve m cu wh tr =
     Inr (Some (map (shipment_row tr \<sigma>) (filter (kept \<sigma> (selected_of \<sigma> (open_vars m))) (ship_vars m)),
                selected_of \<sigma> (open_vars m),
                sum_list (map (fixed_cost_at wh) (selected_of \<sigma> (open_vars m))),
                sum_list (map (transport_of tr \<sigma>)
                  (filter (kept \<sigma> (selected_of \<sigma> (open_vars m))) (ship_vars m)))))"
proof -
  from built have present: "routes_present cu wh tr"
    and m: "m = built_model cu wh tr mn mx"
    by (simp_all add: build_Inr_iff)
  have 1: "select_loop wh \<sigma> (open_vars m) ([], 0) =
      Inr ([] @ selected_of \<sigma> (open_vars m),
           0 + sum_list (map (fixed_cost_at wh) (selected_of \<sigma> (open_vars m))))"
    by (rule select_loop_closed) (simp add: m open_vars_built_model set_dict_keys)
  have 2: "shipment_loop tr \<sigma> (selected_of \<sigma> (open_vars m)) (ship_vars m) ([], 0) =
      Inr ([] @ map (shipment_row tr \<sigma>) (filter (kept \<sigma> (selected_of \<sigma> (open_vars m))) (ship_vars m)),
           0 + sum_list (map (transport_of tr \<sigma>)
             (filter (kept \<sigma> (selected_of \<sigma> (open_vars m))) (ship_vars m))))"
  proof (rule shipment_loop_closed)
    fix wc assume "wc \<in> set (ship_vars m)"
    then have "fst wc \<in> set (map warehouse_id wh)" "snd wc \<in> set (map customer_id cu)"
      unfolding m ship_vars_built_model set_dict_keys by auto
    from cost_per_kg_of_Inr [OF present this]
    show "cost_per_kg_of tr (fst wc) (snd wc) = Inr (cost_at tr (fst wc) (snd wc))" .
  qed
  show ?thesis
    unfolding solve_and_analyze_def using solved st vals 1 2 by simp
qed

lemma solve_and_analyze_not_optimal:
  assumes "solve m = Inr out" "status out \<noteq> 1"
  shows "solve_and_analyze solve m cu wh tr = Inr None \<or> solve_and_analyze solve m cu wh tr = Inl TypeError"
  using assms unfolding solve_and_analyze_def by simp

lemma solve_and_analyze_raises:
  assumes "solve m = Inl e"
  shows "solve_and_analyze solve m cu wh tr = Inl e"
  using assms unfolding solve_and_analyze_def by simp

lemma open_positive_flow:
  assumes feas: "feasible (built_model cu wh tr mn mx) \<sigma>"
    and w: "w \<in> set (map warehouse_id wh)" and c: "c \<in> set (map customer_id cu)"
    and pos: "0 < \<sigma> (Ship w c)"
  shows "\<sigma> (Open w) = 1"
proof -
  from feasible_shipping [OF feas w c]
  have le: "\<sigma> (Ship w c) \<le> real_of_int (capacity_at wh w) * \<sigma> (Open w)" .
  from feasible_binary [OF feas w] show ?thesis
  proof
    assume "\<sigma> (Open w) = 0"
    with le pos show ?thesis by simp
  qed
qed

lemma kept_feasible:
  assumes feas: "feasible (built_model cu wh tr mn mx) \<sigma>"
    and wc: "wc \<in> set (ship_vars (built_model cu wh tr mn mx))"
  shows "kept \<sigma> (selected_of \<sigma> (open_vars (built_model cu wh tr mn mx))) wc
     \<longleftrightarrow> \<sigma> (Ship (fst wc) (snd wc)) > 0.1"
proof -
  from wc have w: "fst wc \<in> set (map warehouse_id wh)" and c: "snd wc \<in> set (map customer_id cu)"
    unfolding ship_vars_built_model set_dict_keys by auto
  show ?thesis
  proof (cases "\<sigma> (Ship (fst wc) (snd wc)) > 0.1")
    case True
    then have "0 < \<sigma> (Ship (fst wc) (snd wc))" by simp
    from open_positive_flow [OF feas w c this] have "\<sigma> (Open (fst wc)) = 1" .
    with w True show ?thesis
      by (simp add: kept_def selected_of_def open_vars_built_model set_dict_keys)
  next
    case False
    then show ?thesis by (simp add: kept_def)
  qed
qed

lemma sum_list_nonneg_real: "(\<And>x. x \<in> set xs \<Longrightarrow> (0::real) \<le> x) \<Longrightarrow> 0 \<le> sum_list xs"
  by (rule sum_list_nonneg)

subsection \<open>Rounding and sums over the route table\<close>

lemma round_half_even_close: "\<bar>real_of_int (round_half_even y) - y\<bar> \<le> 1 / 2"
proof -
  define f where "f = \<lfloor>y\<rfloor>"
  define d where "d = y - real_of_int f"
  have d: "0 \<le> d" "d < 1" unfolding d_def f_def by linarith+
  have y: "y = real_of_int f + d" unfolding d_def by simp
  consider "d < 1 / 2" | "1 / 2 < d" | "d = 1 / 2" by linarith
  then show ?thesis
  proof cases
    case 1
    then have "round_half_even y = f"
      unfolding round_half_even_def Let_def f_def [symmetric] d_def [symmetric] by simp
    with d 1 y show ?thesis by simp
  next
    case 2
    then have "round_half_even y = f + 1"
      unfolding round_half_even_def Let_def f_def [symmetric] d_def [symmetric] by simp
    with d 2 y show ?thesis by simp
  next
    case 3
    then have "round_half_even y = f \<or> round_half_even y = f + 1"
      unfolding round_half_even_def Let_def f_def [symmetric] d_def [symmetric] by simp
    with 3 y show ?thesis by auto
  qed
qed

lemma round2_close: "\<bar>round2 x - x\<bar> \<le> 1 / 200"
proof -
  have "\<bar>real_of_int (round_half_even (x * 100)) - x * 100\<bar> \<le> 1 / 2"
    by (rule round_half_even_close)
  then have "\<bar>(real_of_int (round_half_even (x * 100)) - x * 100) / 100\<bar> \<le> (1 / 2) / 100"
    by (simp only: abs_divide) simp
  moreover have "(real_of_int (round_half_even (x * 100)) - x * 100) / 100 = round2 x - x"
    by (simp add: round2_def diff_divide_distrib)
  ultimately show ?thesis by simp
qed

lemma filter_eq_distinct: "distinct xs \<Longrightarrow> c \<in> set xs \<Longrightarrow> filter (\<lambda>x. x = c) xs = [c]"
proof (induction xs)
  case Nil
  then show ?case by simp
next
  case (Cons a xs)
  show ?case
  proof (cases "a = c")
    case True
    with Cons.prems have "c \<notin> set xs" by simp
    then have "filter (\<lambda>x. x = c) xs = []" by (auto simp: filter_empty_conv)
    with True show ?thesis by simp
  next
    case False
    with Cons show ?thesis by simp
  qed
qed

lemma product_filter_snd:
  assumes "distinct cids" "c \<in> set cids"
  shows "filter (\<lambda>wc. snd wc = c) (List.product wids cids) = map (\<lambda>w. (w, c)) wids"
proof (induction wids)
  case Nil
  then show ?case by simp
next
  case (Cons w wids)
  have "filter (\<lambda>wc. snd wc = c) (map (Pair w) cids) = map (Pair w) (filter (\<lambda>x. x = c) cids)"
    by (simp add: filter_map comp_def)
  also have "\<dots> = [(w, c)]"
    by (simp add: filter_eq_distinct [OF assms])
  finally show ?case using Cons.IH by simp
qed

lemma sum_list_map_filter_if:
  "sum_list (map f (filter P xs)) = sum_list (map (\<lambda>x. if P x then f x else (0::real)) xs)"
  by (induction xs) auto

lemma sum_list_filter_split:
  "sum_list (map f xs) =
     sum_list (map f (filter P xs)) + (sum_list (map f (filter (\<lambda>x. \<not> P x) xs)) :: real)"
  by (induction xs) auto

lemma sum_list_abs_diff:
  "(\<And>x. x \<in> set xs \<Longrightarrow> \<bar>f x - g x\<bar> \<le> (e::real)) \<Longrightarrow>
   \<bar>sum_list (map f xs) - sum_list (map g xs)\<bar> \<le> e * real (length xs)"
proof (induction xs)
  case Nil
  then show ?case by simp
next
  case (Cons a xs)
  have 1: "\<bar>f a - g a\<bar> \<le> e" using Cons.prems by simp
  have 2: "\<bar>sum_list (map f xs) - sum_list (map g xs)\<bar> \<le> e * real (length xs)"
    using Cons.prems by (intro Cons.IH) simp
  have "\<bar>sum_list (map f (a # xs)) - sum_list (map g (a # xs))\<bar>
      = \<bar>(f a - g a) + (sum_list (map f xs) - sum_list (map g xs))\<bar>"
    by simp
  also have "\<dots> \<le> \<bar>f a - g a\<bar> + \<bar>sum_list (map f xs) - sum_list (map g xs)\<bar>"
    by (rule abs_triangle_ineq)
  also have "\<dots> \<le> e + e * real (length xs)" using 1 2 by simp
  also have "\<dots> = e * real (length (a # xs))" by (simp add: algebra_simps)
  finally show ?case .
qed

lemma shipments_into:
  assumes "distinct cids" "c \<in> set cids"
  shows "sum_list (map kg (filter (\<lambda>s. shipment_to s = c)
            (map (shipment_row tr \<sigma>) (filter keep (List.product wids cids)))))
       = sum_list (map (\<lambda>w. if keep (w, c) then round2 (\<sigma> (Ship w c)) else 0) wids)"
proof -
  have e1: "filter (\<lambda>s. shipment_to s = c) (map (shipment_row tr \<sigma>) (filter keep (List.product wids cids)))
      = map (shipment_row tr \<sigma>) (filter (\<lambda>wc. snd wc = c) (filter keep (List.product wids cids)))"
    by (simp add: filter_map comp_def shipment_row_def)
  have "filter (\<lambda>wc. snd wc = c) (filter keep (List.product wids cids))
      = filter keep (filter (\<lambda>wc. snd wc = c) (List.product wids cids))"
    by (simp add: conj_commute)
  also have "\<dots> = filter keep (map (\<lambda>w. (w, c)) wids)"
    by (simp only: product_filter_snd [OF assms])
  also have "\<dots> = map (\<lambda>w. (w, c)) (filter (\<lambda>w. keep (w, c)) wids)"
    by (simp add: filter_map comp_def)
  finally have e2: "filter (\<lambda>wc. snd wc = c) (filter keep (List.product wids cids))
      = map (\<lambda>w. (w, c)) (filter (\<lambda>w. keep (w, c)) wids)" .
  have "map kg (map (shipment_row tr \<sigma>) (map (\<lambda>w. (w, c)) (filter (\<lambda>w. keep (w, c)) wids)))
      = map (\<lambda>w. round2 (\<sigma> (Ship w c))) (filter (\<lambda>w. keep (w, c)) wids)"
    by (simp add: comp_def shipment_row_def)
  then have "sum_list (map kg (filter (\<lambda>s. shipment_to s = c)
            (map (shipment_row tr \<sigma>) (filter keep (List.product wids cids)))))
      = sum_list (map (\<lambda>w. round2 (\<sigma> (Ship w c))) (filter (\<lambda>w. keep (w, c)) wids))"
    by (simp only: e1 e2)
  then show ?thesis by (simp only: sum_list_map_filter_if)
qed

lemma aff_value_objective:
  "aff_value \<sigma> (objective (built_model cu wh tr mn mx)) =
     sum_list (map (\<lambda>w. real_of_int (fixed_cost_at wh w) * \<sigma> (Open w)) (map warehouse_id wh))
     + sum_list (map (\<lambda>wc. cost_at tr (fst wc) (snd wc) * \<sigma> (Ship (fst wc) (snd wc)))
         (List.product (map warehouse_id wh) (map customer_id cu)))"
  by (simp add: objective_built_model aff_value_def comp_def)

lemma fixed_total_binary:
  assumes "\<And>w. w \<in> set ws \<Longrightarrow> \<sigma> (Open w) = 0 \<or> \<sigma> (Open w) = 1"
  shows "sum_list (map (\<lambda>w. real_of_int (f w) * \<sigma> (Open w)) ws)
       = real_of_int (sum_list (map f (selected_of \<sigma> ws)))"
  using assms
proof (induction ws)
  case Nil
  then show ?case by (simp add: selected_of_def)
next
  case (Cons w ws)
  have IH: "sum_list (map (\<lambda>w. real_of_int (f w) * \<sigma> (Open w)) ws)
       = real_of_int (sum_list (map f (selected_of \<sigma> ws)))"
    using Cons.prems by (intro Cons.IH) simp
  from Cons.prems [of w] have "\<sigma> (Open w) = 0 \<or> \<sigma> (Open w) = 1" by simp
  then show ?case
  proof
    assume "\<sigma> (Open w) = 0"
    with IH show ?thesis by (simp add: selected_of_def)
  next
    assume "\<sigma> (Open w) = 1"
    with IH show ?thesis by (simp add: selected_of_def)
  qed
qed


section \<open>The concrete instances evaluated\<close>

lemma scenario_present: "routes_present scenario_customers scenario_warehouses scenario_routes"
  by (simp add: routes_present_def scenario_customers_def scenario_warehouses_def scenario_routes_def)

lemma scenario_range:
  "calculate_capacity_constraints scenario_customers scenario_warehouses = (1, 2)"
  by (simp add: scenario_warehouses_def scenario_customers_def total_demand_of_def
      calculate_capacity_constraints_def warehouses_sorted_def Let_def)

lemma scenario_built:
  "build_optimization_model scenario_customers scenario_warehouses scenario_routes 1 2
     = Inr (built_model scenario_customers scenario_warehouses scenario_routes 1 2)"
  by (rule build_present) (rule scenario_present)

lemma scenario_model:
  "built_model scenario_customers scenario_warehouses scenario_routes mn mx =
     \<lparr>objective = Aff [(1000, Open ''A''), (400, Open ''B''),
                        (2, Ship ''A'' ''1''), (3, Ship ''A'' ''2''),
                        (4, Ship ''B'' ''1''), (1, Ship ''B'' ''2'')] 0,
      constraints = [demand_constraint [''A'', ''B''] ''1'' 60,
                     demand_constraint [''A'', ''B''] ''2'' 40,
                     capacity_constraint [''1'', ''2''] ''A'' 100,
                     capacity_constraint [''1'', ''2''] ''B'' 50,
                     min_constraint [''A'', ''B''] mn, max_constraint [''A'', ''B''] mx,
                     shipping_constraint ''A'' ''1'' 100, shipping_constraint ''A'' ''2'' 100,
                     shipping_constraint ''B'' ''1'' 50, shipping_constraint ''B'' ''2'' 50],
      open_vars = [''A'', ''B''],
      ship_vars = [(''A'', ''1''), (''A'', ''2''), (''B'', ''1''), (''B'', ''2'')]\<rparr>"
  by (simp add: built_model_def Let_def scenario_customers_def scenario_warehouses_def
      scenario_routes_def fixed_cost_at_def fixed_cost_of_def capacity_at_def capacity_of_def
      demand_at_def demand_of_def cost_at_def cost_per_kg_of_def)

lemma scenario_feasible:
  "feasible (built_model scenario_customers scenario_warehouses scenario_routes 1 2)
     scenario_assignment"
  unfolding scenario_model
  by (simp add: feasible_def scenario_assignment_def holds_demand_constraint
      holds_capacity_constraint holds_min_constraint holds_max_constraint
      holds_shipping_constraint)

lemma round2_numerals: "round2 60 = 60" "round2 40 = 40" "round2 120 = 120"
  by (simp_all add: round2_def round_half_even_def)

lemma scenario_extract:
  "solve_and_analyze scenario_solver
     (built_model scenario_customers scenario_warehouses scenario_routes 1 2)
     scenario_customers scenario_warehouses scenario_routes
   = Inr (Some ([\<lparr>shipment_from = ''A'', shipment_to = ''1'', kg = 60, cost = 120\<rparr>,
                 \<lparr>shipment_from = ''A'', shipment_to = ''2'', kg = 40, cost = 120\<rparr>],
                [''A''], 1000, 240))"
  unfolding scenario_model
  by (simp add: solve_and_analyze_def scenario_solver_def scenario_assignment_def
      scenario_warehouses_def scenario_routes_def fixed_cost_of_def capacity_of_def
      cost_per_kg_of_def round2_numerals)

lemma idle_present: "routes_present (single_customer d) single_warehouse (single_route k)"
  by (simp add: routes_present_def single_customer_def single_warehouse_def single_route_def)

lemma idle_range: "calculate_capacity_constraints (single_customer 0) single_warehouse = (1, 1)"
  by (simp add: single_warehouse_def single_customer_def total_demand_of_def
      calculate_capacity_constraints_def warehouses_sorted_def Let_def)

lemma idle_built:
  "build_optimization_model (single_customer d) single_warehouse (single_route k) 1 1
     = Inr (built_model (single_customer d) single_warehouse (single_route k) 1 1)"
  by (rule build_present) (rule idle_present)

lemma single_model:
  "built_model (single_customer d) single_warehouse (single_route k) mn mx =
     \<lparr>objective = Aff [(1000, Open ''A''), (k, Ship ''A'' ''1'')] 0,
      constraints = [demand_constraint [''A''] ''1'' d,
                     capacity_constraint [''1''] ''A'' 100,
                     min_constraint [''A''] mn, max_constraint [''A''] mx,
                     shipping_constraint ''A'' ''1'' 100],
      open_vars = [''A''],
      ship_vars = [(''A'', ''1'')]\<rparr>"
  by (simp add: built_model_def Let_def single_customer_def single_warehouse_def single_route_def
      fixed_cost_at_def fixed_cost_of_def capacity_at_def capacity_of_def demand_at_def
      demand_of_def cost_at_def cost_per_kg_of_def)

lemma idle_feasible:
  "feasible (built_model (single_customer 0) single_warehouse (single_route 2) 1 1) idle_assignment"
  unfolding single_model
  by (simp add: feasible_def idle_assignment_def holds_demand_constraint holds_capacity_constraint
      holds_min_constraint holds_max_constraint holds_shipping_constraint)

lemma idle_extract:
  "solve_and_analyze idle_solver (built_model (single_customer 0) single_warehouse (single_route 2) 1 1)
     (single_customer 0) single_warehouse (single_route 2) = Inr (Some ([], [''A''], 1000, 0))"
  unfolding single_model
  by (simp add: solve_and_analyze_def idle_solver_def idle_assignment_def single_warehouse_def
      fixed_cost_of_def capacity_of_def)

lemma idle_usage: "usage (single_customer 0) idle_assignment ''A'' 100 = 0"
  by (simp add: usage_def shipped_def single_customer_def idle_assignment_def)

lemma small_range:
  "calculate_capacity_constraints (single_customer (1 / 16)) single_warehouse = (1, 1)"
  by (simp add: single_warehouse_def single_customer_def total_demand_of_def
      calculate_capacity_constraints_def warehouses_sorted_def Let_def)

lemma small_feasible:
  "feasible (built_model (single_customer (1 / 16)) single_warehouse (single_route k) 1 1)
     small_assignment"
  unfolding single_model
  by (simp add: feasible_def small_assignment_def holds_demand_constraint
      holds_capacity_constraint holds_min_constraint holds_max_constraint
      holds_shipping_constraint)

lemma small_extract:
  "solve_and_analyze small_solver
     (built_model (single_customer (1 / 16)) single_warehouse (single_route k) 1 1)
     (single_customer (1 / 16)) single_warehouse (single_route k)
   = Inr (Some ([], [''A''], 1000, 0))"
  unfolding single_model
  by (simp add: solve_and_analyze_def small_solver_def small_assignment_def single_warehouse_def
      fixed_cost_of_def capacity_of_def)

lemma small_objective:
  "aff_value small_assignment
     (objective (built_model (single_customer (1 / 16)) single_warehouse (single_route 16000) 1 1))
   = 2000"
  unfolding single_model by (simp add: aff_value_def small_assignment_def)

lemma single_unique:
  assumes "feasible (built_model (single_customer d) single_warehouse (single_route k) 1 1) \<sigma>"
  shows "\<sigma> (Open ''A'') = 1 \<and> \<sigma> (Ship ''A'' ''1'') = d"
  using assms unfolding single_model
  by (simp add: feasible_def holds_demand_constraint holds_min_constraint holds_max_constraint)

lemma short_present: "routes_present (single_customer 100) short_warehouses short_routes"
  by (simp add: routes_present_def single_customer_def short_warehouses_def short_routes_def)

lemma short_range:
  "calculate_capacity_constraints (single_customer 100) short_warehouses = (0, 2)"
  by (simp add: short_warehouses_def single_customer_def total_demand_of_def
      calculate_capacity_constraints_def warehouses_sorted_def Let_def)

lemma short_objective_terms:
  "terms (objective (built_model (single_customer 100) short_warehouses short_routes 0 2)) \<noteq> []"
  by (simp add: objective_built_model short_warehouses_def)

lemma short_extract:
  "solve_and_analyze infeasible_solver
     (built_model (single_customer 100) short_warehouses short_routes 0 2)
     (single_customer 100) short_warehouses short_routes = Inr None"
  by (simp add: solve_and_analyze_def infeasible_solver_def)


section \<open>The claims about the model and the extraction\<close>

subsection \<open>Capacity linkage implies the per-route bound\<close>



subsection \<open>Which flows are extracted\<close>

text \<open>
  Claim C6: for an Optimal result, the extracted flows are exactly the pairs whose flow
  exceeds \<open>0.1\<close>.  \<open>solve_and_analyze\<close> keeps a pair when its flow exceeds \<open>0.1\<close> and
  its warehouse is among the selected ones; for an assignment that is feasible for the
  built model the second test is implied by the first, since a positive flow forces the
  binary \<open>open\<close> variable of its warehouse to \<open>1\<close>.
\<close>

theorem extracted_flows_exact:
  assumes built: "build_optimization_model customers_df warehouses_df transport_df mn mx = Inr m"
    and feas: "feasible m \<sigma>"
    and solved: "solve m = Inr out" and st: "status out = 1" and vals: "var_values out = Some \<sigma>"
  shows "\<exists>shipments selected total_fixed total_transport.
           solve_and_analyze solve m customers_df warehouses_df transport_df
             = Inr (Some (shipments, selected, total_fixed, total_transport)) \<and>
           set (map (\<lambda>s. (shipment_from s, shipment_to s)) shipments)
             = {wc. wc \<in> set (ship_vars m) \<and> \<sigma> (Ship (fst wc) (snd wc)) > 0.1}"
proof -
  from built have m: "m = built_model customers_df warehouses_df transport_df mn mx"
    by (simp add: build_Inr_iff)
  let ?keep = "kept \<sigma> (selected_of \<sigma> (open_vars m))"
  have "set (map (\<lambda>s. (shipment_from s, shipment_to s))
          (map (shipment_row transport_df \<sigma>) (filter ?keep (ship_vars m))))
      = set (filter ?keep (ship_vars m))"
    by (simp add: shipment_row_def comp_def)
  also have "\<dots> = {wc. wc \<in> set (ship_vars m) \<and> \<sigma> (Ship (fst wc) (snd wc)) > 0.1}"
    using kept_feasible [of customers_df warehouses_df transport_df mn mx \<sigma>] feas
    unfolding m by auto
  finally show ?thesis
    using solve_and_analyze_optimal [where solve = solve, OF built solved st vals] by blast
qed

theorem extracted_flows_exact_witness:
  "build_optimization_model scenario_customers scenario_warehouses scenario_routes 1 2
     = Inr (built_model scenario_customers scenario_warehouses scenario_routes 1 2) \<and>
   feasible (built_model scenario_customers scenario_warehouses scenario_routes 1 2)
     scenario_assignment \<and>
   scenario_solver (built_model scenario_customers scenario_warehouses scenario_routes 1 2)
     = Inr \<lparr>status = 1, var_values = Some scenario_assignment\<rparr> \<and>
   (\<exists>shipments selected total_fixed total_transport.
      solve_and_analyze scenario_solver
        (built_model scenario_customers scenario_warehouses scenario_routes 1 2)
        scenario_customers scenario_warehouses scenario_routes
        = Inr (Some (shipments, selected, total_fixed, total_transport)) \<and>
      set (map (\<lambda>s. (shipment_from s, shipment_to s)) shipments)
        = {wc. wc \<in> set (ship_vars
                 (built_model scenario_customers scenario_warehouses scenario_routes 1 2)) \<and>
               scenario_assignment (Ship (fst wc) (snd wc)) > 0.1})"
proof -
  have solved: "scenario_solver (built_model scenario_customers scenario_warehouses scenario_routes 1 2)
     = Inr \<lparr>status = 1, var_values = Some scenario_assignment\<rparr>"
    by (simp add: scenario_solver_def)
  have st: "status \<lparr>status = 1, var_values = Some scenario_assignment\<rparr> = 1" by simp
  have vals: "var_values \<lparr>status = 1, var_values = Some scenario_assignment\<rparr>
     = Some scenario_assignment" by simp
  from extracted_flows_exact [where solve = scenario_solver,
      OF scenario_built scenario_feasible solved st vals]
    scenario_built scenario_feasible solved
  show ?thesis by blast
qed

subsection \<open>Utilisation of the selected warehouses\<close>

text \<open>
  Claim C7, as the specification states it: the utilisation of every activated facility
  lies in \<open>(0, 1]\<close>, and a utilisation of \<open>0\<close> is flagged as a bug.  \<open>solve_and_analyze\<close>
  computes \<open>usage\<close> only to print it.  With one facility and one demand point of demand
  \<open>0\<close> the range is \<open>(1, 1)\<close>, the only feasible assignment opens the facility and
  ships nothing, and the extraction returns the facility as selected with a utilisation
  of \<open>0\<close>, without any error.
\<close>

lemma idle_only_solution:
  "feasible (built_model (single_customer 0) single_warehouse (single_route 2) 1 1) \<sigma>
   \<Longrightarrow> \<sigma> (Open ''A'') = 1 \<and> \<sigma> (Ship ''A'' ''1'') = 0"
  by (rule single_unique)

theorem utilisation_zero_counterexample:
  "calculate_capacity_constraints (single_customer 0) single_warehouse = (1, 1) \<and>
   build_optimization_model (single_customer 0) single_warehouse (single_route 2) 1 1
     = Inr (built_model (single_customer 0) single_warehouse (single_route 2) 1 1) \<and>
   feasible (built_model (single_customer 0) single_warehouse (single_route 2) 1 1)
     idle_assignment \<and>
   solve_and_analyze idle_solver
     (built_model (single_customer 0) single_warehouse (single_route 2) 1 1)
     (single_customer 0) single_warehouse (single_route 2)
     = Inr (Some ([], [''A''], 1000, 0)) \<and>
   capacity_of single_warehouse ''A'' = Inr 100 \<and>
   usage (single_customer 0) idle_assignment ''A'' 100 = 0"
  using idle_range idle_built [of 0 2] idle_feasible idle_extract idle_usage
  by (simp add: capacity_of_def single_warehouse_def)

text \<open>
  Claim C7, amended: for every warehouse selected from an assignment that is feasible for
  the built model, and whose capacity is positive, the utilisation lies in the closed
  interval from \<open>0\<close> to \<open>1\<close> (\<open>usage\<close>, printed in percent, lies between \<open>0\<close> and
  \<open>100\<close>).  A utilisation of \<open>0\<close> is possible; it is printed like any other and
  nothing is flagged.
\<close>

theorem utilisation_bounds:
  assumes built: "build_optimization_model customers_df warehouses_df transport_df mn mx = Inr m"
    and feas: "feasible m \<sigma>"
    and solved: "solve m = Inr out" and st: "status out = 1" and vals: "var_values out = Some \<sigma>"
    and res: "solve_and_analyze solve m customers_df warehouses_df transport_df
                = Inr (Some (shipments, selected, total_fixed, total_transport))"
    and sel: "warehouse \<in> set selected"
    and cap: "capacity_of warehouses_df warehouse = Inr capacity" and pos: "0 < capacity"
  shows "0 \<le> usage customers_df \<sigma> warehouse capacity \<and>
         usage customers_df \<sigma> warehouse capacity \<le> 100"
proof -
  from built have m: "m = built_model customers_df warehouses_df transport_df mn mx"
    by (simp add: build_Inr_iff)
  from res solve_and_analyze_optimal [where solve = solve, OF built solved st vals]
  have "selected = selected_of \<sigma> (open_vars m)" by simp
  with sel have w: "warehouse \<in> set (map warehouse_id warehouses_df)"
    and op: "\<sigma> (Open warehouse) > 0.5"
    unfolding m open_vars_built_model selected_of_def by (simp_all add: set_dict_keys)
  from cap capacity_of_Inr [OF w] have capacity: "capacity = capacity_at warehouses_df warehouse"
    by simp
  from feas feasible_binary [OF _ w] op have one: "\<sigma> (Open warehouse) = 1"
    unfolding m by fastforce
  have lower: "0 \<le> shipped customers_df \<sigma> warehouse"
    unfolding shipped_def
  proof (rule sum_list_nonneg_real)
    fix x assume "x \<in> set (map (\<lambda>c. \<sigma> (Ship warehouse c)) (map customer_id customers_df))"
    then obtain c where "c \<in> set (map customer_id customers_df)" "x = \<sigma> (Ship warehouse c)"
      by auto
    with feasible_nonneg [OF _ w] feas show "0 \<le> x" unfolding m by blast
  qed
  have upper: "shipped customers_df \<sigma> warehouse \<le> real_of_int capacity"
    using feasible_capacity [OF _ w] feas one unfolding m shipped_def capacity by fastforce
  from pos have rpos: "0 < real_of_int capacity" by simp
  define q where "q = shipped customers_df \<sigma> warehouse / real_of_int capacity"
  have "0 \<le> q"
    unfolding q_def using lower rpos by simp
  moreover have "q \<le> 1"
    unfolding q_def using upper rpos by simp
  ultimately have "0 \<le> q * 100 \<and> q * 100 \<le> 100" by simp
  then show ?thesis unfolding usage_def q_def .
qed

theorem utilisation_bounds_witness:
  "build_optimization_model scenario_customers scenario_warehouses scenario_routes 1 2
     = Inr (built_model scenario_customers scenario_warehouses scenario_routes 1 2) \<and>
   feasible (built_model scenario_customers scenario_warehouses scenario_routes 1 2)
     scenario_assignment \<and>
   solve_and_analyze scenario_solver
     (built_model scenario_customers scenario_warehouses scenario_routes 1 2)
     scenario_customers scenario_warehouses scenario_routes
     = Inr (Some ([\<lparr>shipment_from = ''A'', shipment_to = ''1'', kg = 60, cost = 120\<rparr>,
                   \<lparr>shipment_from = ''A'', shipment_to = ''2'', kg = 40, cost = 120\<rparr>],
                  [''A''], 1000, 240)) \<and>
   capacity_of scenario_warehouses ''A'' = Inr 100 \<and>
   0 \<le> usage scenario_customers scenario_assignment ''A'' 100 \<and>
   usage scenario_customers scenario_assignment ''A'' 100 \<le> 100"
proof -
  have solved: "scenario_solver (built_model scenario_customers scenario_warehouses scenario_routes 1 2)
     = Inr \<lparr>status = 1, var_values = Some scenario_assignment\<rparr>"
    by (simp add: scenario_solver_def)
  have st: "status \<lparr>status = 1, var_values = Some scenario_assignment\<rparr> = 1" by simp
  have vals: "var_values \<lparr>status = 1, var_values = Some scenario_assignment\<rparr>
     = Some scenario_assignment" by simp
  have sel: "''A'' \<in> set [''A'']" by simp
  have cap: "capacity_of scenario_warehouses ''A'' = Inr 100"
    by (simp add: capacity_of_def scenario_warehouses_def)
  have pos: "(0::int) < 100" by simp
  from utilisation_bounds [where solve = scenario_solver,
      OF scenario_built scenario_feasible solved st vals scenario_extract sel cap pos]
    scenario_built scenario_feasible scenario_extract cap
  show ?thesis by blast
qed

subsection \<open>Extracted flows against the demand\<close>

text \<open>
  Claim C2, as the specification states it: for every feasible instance and every demand
  point, the extracted flows into the point sum to its demand within a relative tolerance
  of \<open>10\<^sup>-\<^sup>6\<close>.  The extraction drops every flow that does not exceed \<open>0.1\<close> and rounds
  the kept ones to two decimals.  With one facility and a demand of \<open>1/16\<close> the only
  feasible assignment ships \<open>1/16\<close>, which is not extracted: the extracted flows into the
  point sum to \<open>0\<close>.
\<close>

lemma small_only_solution:
  "feasible (built_model (single_customer (1 / 16)) single_warehouse (single_route 2) 1 1) \<sigma>
   \<Longrightarrow> \<sigma> (Open ''A'') = 1 \<and> \<sigma> (Ship ''A'' ''1'') = 1 / 16"
  by (rule single_unique)

theorem extracted_demand_counterexample:
  "calculate_capacity_constraints (single_customer (1 / 16)) single_warehouse = (1, 1) \<and>
   build_optimization_model (single_customer (1 / 16)) single_warehouse (single_route 2) 1 1
     = Inr (built_model (single_customer (1 / 16)) single_warehouse (single_route 2) 1 1) \<and>
   feasible (built_model (single_customer (1 / 16)) single_warehouse (single_route 2) 1 1)
     small_assignment \<and>
   solve_and_analyze small_solver
     (built_model (single_customer (1 / 16)) single_warehouse (single_route 2) 1 1)
     (single_customer (1 / 16)) single_warehouse (single_route 2)
     = Inr (Some ([], [''A''], 1000, 0)) \<and>
   demand_of (single_customer (1 / 16)) ''1'' = Inr (1 / 16) \<and>
   \<not> \<bar>sum_list (map kg (filter (\<lambda>s. shipment_to s = ''1'') ([] :: shipment list))) - 1 / 16\<bar>
       \<le> 1 / 1000000 * (1 / 16)"
  using small_range idle_built [of "1 / 16" 2] small_feasible [of 2] small_extract [of 2]
  by (simp add: demand_of_def single_customer_def)

text \<open>
  Claim C2, amended: for every assignment feasible for the built model (identifiers being
  unique) and every demand point, the flows into the point over all facilities sum to
  its demand exactly, and the quantities of the extracted shipments into the point sum to
  the demand up to \<open>0.1\<close> per facility: a flow is either kept and rounded to two decimals,
  or it is at most \<open>0.1\<close> and dropped.
\<close>

theorem extracted_demand_gap:
  assumes built: "build_optimization_model customers_df warehouses_df transport_df mn mx = Inr m"
    and feas: "feasible m \<sigma>"
    and solved: "solve m = Inr out" and st: "status out = 1" and vals: "var_values out = Some \<sigma>"
    and res: "solve_and_analyze solve m customers_df warehouses_df transport_df
                = Inr (Some (shipments, selected, total_fixed, total_transport))"
    and dw: "distinct (map warehouse_id warehouses_df)"
    and dc: "distinct (map customer_id customers_df)"
    and dem: "demand_of customers_df c = Inr demand"
  shows "sum_list (map (\<lambda>w. \<sigma> (Ship w c)) (map warehouse_id warehouses_df)) = demand \<and>
         \<bar>sum_list (map kg (filter (\<lambda>s. shipment_to s = c) shipments)) - demand\<bar>
           \<le> 0.1 * real (length warehouses_df)"
proof -
  let ?wids = "map warehouse_id warehouses_df" and ?cids = "map customer_id customers_df"
  from built have m: "m = built_model customers_df warehouses_df transport_df mn mx"
    by (simp add: build_Inr_iff)
  from feas have feas': "feasible (built_model customers_df warehouses_df transport_df mn mx) \<sigma>"
    by (simp add: m)
  have c: "c \<in> set ?cids"
  proof -
    from dem have "\<exists>x\<in>set customers_df. customer_id x = c \<and> monthly_demand_kg x = demand"
      unfolding demand_of_def by (rule values0_Inr_D)
    then show ?thesis by auto
  qed
  from dem demand_of_Inr [OF c] have demand: "demand = demand_at customers_df c" by simp
  have total: "sum_list (map (\<lambda>w. \<sigma> (Ship w c)) ?wids) = demand"
    using feasible_demand [OF feas' c] demand by simp
  let ?keep = "kept \<sigma> (selected_of \<sigma> (open_vars m))"
  have keys: "ship_vars m = List.product ?wids ?cids"
    unfolding m ship_vars_built_model
    by (rule dict_keys_distinct) (simp add: distinct_product dw dc)
  have "Inr (Some (shipments, selected, total_fixed, total_transport))
      = (Inr (Some (map (shipment_row transport_df \<sigma>) (filter ?keep (ship_vars m)),
           selected_of \<sigma> (open_vars m),
           sum_list (map (fixed_cost_at warehouses_df) (selected_of \<sigma> (open_vars m))),
           sum_list (map (transport_of transport_df \<sigma>) (filter ?keep (ship_vars m)))))
         :: py_error + results option)"
    unfolding res [symmetric]
    by (rule solve_and_analyze_optimal [where solve = solve, OF built solved st vals])
  then have "shipments = map (shipment_row transport_df \<sigma>) (filter ?keep (ship_vars m))"
    by simp
  then have sh: "shipments = map (shipment_row transport_df \<sigma>) (filter ?keep (List.product ?wids ?cids))"
    by (simp only: keys)
  have into: "sum_list (map kg (filter (\<lambda>s. shipment_to s = c) shipments))
      = sum_list (map (\<lambda>w. if ?keep (w, c) then round2 (\<sigma> (Ship w c)) else 0) ?wids)"
    unfolding sh by (rule shipments_into [OF dc c])
  have each: "\<bar>(if ?keep (w, c) then round2 (\<sigma> (Ship w c)) else 0) - \<sigma> (Ship w c)\<bar> \<le> 0.1"
    if w: "w \<in> set ?wids" for w
  proof (cases "?keep (w, c)")
    case True
    have "\<bar>round2 (\<sigma> (Ship w c)) - \<sigma> (Ship w c)\<bar> \<le> 1 / 200" by (rule round2_close)
    with True show ?thesis by simp
  next
    case False
    have "(w, c) \<in> set (ship_vars (built_model customers_df warehouses_df transport_df mn mx))"
      using w c unfolding ship_vars_built_model set_dict_keys by simp
    from kept_feasible [OF feas' this] False have "\<not> \<sigma> (Ship w c) > 0.1"
      by (simp add: m)
    moreover have "0 \<le> \<sigma> (Ship w c)" by (rule feasible_nonneg [OF feas' w c])
    ultimately show ?thesis using False by simp
  qed
  have "\<bar>sum_list (map (\<lambda>w. if ?keep (w, c) then round2 (\<sigma> (Ship w c)) else 0) ?wids)
          - sum_list (map (\<lambda>w. \<sigma> (Ship w c)) ?wids)\<bar> \<le> 0.1 * real (length ?wids)"
    by (rule sum_list_abs_diff) (rule each)
  with into total show ?thesis by simp
qed

theorem extracted_demand_gap_witness:
  "build_optimization_model scenario_customers scenario_warehouses scenario_routes 1 2
     = Inr (built_model scenario_customers scenario_warehouses scenario_routes 1 2) \<and>
   feasible (built_model scenario_customers scenario_warehouses scenario_routes 1 2)
     scenario_assignment \<and>
   distinct (map warehouse_id scenario_warehouses) \<and>
   distinct (map customer_id scenario_customers) \<and>
   demand_of scenario_customers ''1'' = Inr 60 \<and>
   sum_list (map (\<lambda>w. scenario_assignment (Ship w ''1'')) (map warehouse_id scenario_warehouses)) = 60 \<and>
   \<bar>sum_list (map kg (filter (\<lambda>s. shipment_to s = ''1'')
        [\<lparr>shipment_from = ''A'', shipment_to = ''1'', kg = 60, cost = 120\<rparr>,
         \<lparr>shipment_from = ''A'', shipment_to = ''2'', kg = 40, cost = 120\<rparr>])) - 60\<bar>
     \<le> 0.1 * real (length scenario_warehouses)"
proof -
  have solved: "scenario_solver (built_model scenario_customers scenario_warehouses scenario_routes 1 2)
     = Inr \<lparr>status = 1, var_values = Some scenario_assignment\<rparr>"
    by (simp add: scenario_solver_def)
  have st: "status \<lparr>status = 1, var_values = Some scenario_assignment\<rparr> = 1" by simp
  have vals: "var_values \<lparr>status = 1, var_values = Some scenario_assignment\<rparr>
     = Some scenario_assignment" by simp
  have dw: "distinct (map warehouse_id scenario_warehouses)"
    by (simp add: scenario_warehouses_def)
  have dc: "distinct (map customer_id scenario_customers)"
    by (simp add: scenario_customers_def)
  have dem: "demand_of scenario_customers ''1'' = Inr 60"
    by (simp add: demand_of_def scenario_customers_def)
  from extracted_demand_gap [where solve = scenario_solver,
      OF scenario_built scenario_feasible solved st vals scenario_extract dw dc dem]
    scenario_built scenario_feasible dw dc dem
  show ?thesis by blast
qed

subsection \<open>The cost breakdown against the objective\<close>

text \<open>
  Claim C5, as the specification states it: the extractor verifies that the fixed and the
  transport total add up to the objective value within tolerance, and raises a
  data-integrity error otherwise.  \<open>solve_and_analyze\<close> compares nothing: it prints the
  three numbers and returns the two totals.  With one facility of fixed cost \<open>1000\<close>, a
  demand of \<open>1/16\<close> and a route cost of \<open>16000\<close> the objective is \<open>2000\<close>, the totals
  returned are \<open>1000\<close> and \<open>0\<close>, and no error is raised.
\<close>

theorem cost_breakdown_counterexample:
  "build_optimization_model (single_customer (1 / 16)) single_warehouse (single_route 16000) 1 1
     = Inr (built_model (single_customer (1 / 16)) single_warehouse (single_route 16000) 1 1) \<and>
   feasible (built_model (single_customer (1 / 16)) single_warehouse (single_route 16000) 1 1)
     small_assignment \<and>
   aff_value small_assignment
     (objective (built_model (single_customer (1 / 16)) single_warehouse (single_route 16000) 1 1))
     = 2000 \<and>
   solve_and_analyze small_solver
     (built_model (single_customer (1 / 16)) single_warehouse (single_route 16000) 1 1)
     (single_customer (1 / 16)) single_warehouse (single_route 16000)
     = Inr (Some ([], [''A''], 1000, 0)) \<and>
   \<bar>(real_of_int 1000 + 0) - 2000\<bar> = (1000 :: real)"
  using idle_built [of "1 / 16" 16000] small_feasible [of 16000] small_extract [of 16000]
    small_objective
  by simp

text \<open>
  Claim C5, amended: for every Optimal result on a feasible assignment (identifiers being
  unique) the extractor returns the two totals without comparing them to the objective
  and raises no error; the objective value equals the fixed total plus the transport
  total plus the cost of the flows of at most \<open>0.1\<close>, which the extraction leaves out
  of the transport total.
\<close>

theorem cost_breakdown_gap:
  assumes built: "build_optimization_model customers_df warehouses_df transport_df mn mx = Inr m"
    and feas: "feasible m \<sigma>"
    and solved: "solve m = Inr out" and st: "status out = 1" and vals: "var_values out = Some \<sigma>"
    and dw: "distinct (map warehouse_id warehouses_df)"
    and dc: "distinct (map customer_id customers_df)"
  shows "\<exists>shipments selected total_fixed total_transport.
           solve_and_analyze solve m customers_df warehouses_df transport_df
             = Inr (Some (shipments, selected, total_fixed, total_transport)) \<and>
           aff_value \<sigma> (objective m) = real_of_int total_fixed + total_transport
             + sum_list (map (\<lambda>wc. cost_at transport_df (fst wc) (snd wc) * \<sigma> (Ship (fst wc) (snd wc)))
                 (filter (\<lambda>wc. \<sigma> (Ship (fst wc) (snd wc)) \<le> 0.1) (ship_vars m)))"
proof -
  let ?wids = "map warehouse_id warehouses_df" and ?cids = "map customer_id customers_df"
  from built have m: "m = built_model customers_df warehouses_df transport_df mn mx"
    by (simp add: build_Inr_iff)
  from feas have feas': "feasible (built_model customers_df warehouses_df transport_df mn mx) \<sigma>"
    by (simp add: m)
  let ?keep = "kept \<sigma> (selected_of \<sigma> (open_vars m))"
  let ?flowcost = "\<lambda>wc. cost_at transport_df (fst wc) (snd wc) * \<sigma> (Ship (fst wc) (snd wc))"
  have keys: "ship_vars m = List.product ?wids ?cids"
    unfolding m ship_vars_built_model
    by (rule dict_keys_distinct) (simp add: distinct_product dw dc)
  have okeys: "open_vars m = ?wids"
    unfolding m open_vars_built_model by (rule dict_keys_distinct) (rule dw)
  have fixed: "sum_list (map (\<lambda>w. real_of_int (fixed_cost_at warehouses_df w) * \<sigma> (Open w)) ?wids)
      = real_of_int (sum_list (map (fixed_cost_at warehouses_df) (selected_of \<sigma> (open_vars m))))"
    unfolding okeys by (rule fixed_total_binary) (rule feasible_binary [OF feas'])
  have keep_eq: "filter ?keep (ship_vars m) = filter (\<lambda>wc. \<sigma> (Ship (fst wc) (snd wc)) > 0.1) (ship_vars m)"
    by (rule filter_cong [OF refl]) (simp add: m kept_feasible [OF feas'])
  have drop_eq: "filter (\<lambda>wc. \<not> \<sigma> (Ship (fst wc) (snd wc)) > 0.1) (ship_vars m)
      = filter (\<lambda>wc. \<sigma> (Ship (fst wc) (snd wc)) \<le> 0.1) (ship_vars m)"
    by (rule filter_cong [OF refl]) (simp add: not_less)
  have "sum_list (map ?flowcost (ship_vars m))
      = sum_list (map ?flowcost (filter (\<lambda>wc. \<sigma> (Ship (fst wc) (snd wc)) > 0.1) (ship_vars m)))
        + sum_list (map ?flowcost (filter (\<lambda>wc. \<not> \<sigma> (Ship (fst wc) (snd wc)) > 0.1) (ship_vars m)))"
    by (rule sum_list_filter_split)
  then have transport: "sum_list (map ?flowcost (ship_vars m))
      = sum_list (map (transport_of transport_df \<sigma>) (filter ?keep (ship_vars m)))
        + sum_list (map ?flowcost (filter (\<lambda>wc. \<sigma> (Ship (fst wc) (snd wc)) \<le> 0.1) (ship_vars m)))"
    unfolding keep_eq drop_eq transport_of_def by (simp add: mult.commute)
  have "aff_value \<sigma> (objective m)
      = real_of_int (sum_list (map (fixed_cost_at warehouses_df) (selected_of \<sigma> (open_vars m))))
        + sum_list (map ?flowcost (ship_vars m))"
    unfolding keys unfolding m aff_value_objective
    using fixed unfolding m by simp
  with transport have "aff_value \<sigma> (objective m)
      = real_of_int (sum_list (map (fixed_cost_at warehouses_df) (selected_of \<sigma> (open_vars m))))
        + sum_list (map (transport_of transport_df \<sigma>) (filter ?keep (ship_vars m)))
        + sum_list (map ?flowcost (filter (\<lambda>wc. \<sigma> (Ship (fst wc) (snd wc)) \<le> 0.1) (ship_vars m)))"
    by simp
  with solve_and_analyze_optimal [where solve = solve, OF built solved st vals]
  show ?thesis by blast
qed

theorem cost_breakdown_gap_witness:
  "build_optimization_model scenario_customers scenario_warehouses scenario_routes 1 2
     = Inr (built_model scenario_customers scenario_warehouses scenario_routes 1 2) \<and>
   feasible (built_model scenario_customers scenario_warehouses scenario_routes 1 2)
     scenario_assignment \<and>
   distinct (map warehouse_id scenario_warehouses) \<and>
   distinct (map customer_id scenario_customers) \<and>
   (\<exists>shipments selected total_fixed total_transport.
      solve_and_analyze scenario_solver
        (built_model scenario_customers scenario_warehouses scenario_routes 1 2)
        scenario_customers scenario_warehouses scenario_routes
        = Inr (Some (shipments, selected, total_fixed, total_transport)) \<and>
      aff_value scenario_assignment
        (objective (built_model scenario_customers scenario_warehouses scenario_routes 1 2))
        = real_of_int total_fixed + total_transport
          + sum_list (map (\<lambda>wc. cost_at scenario_routes (fst wc) (snd wc)
                            * scenario_assignment (Ship (fst wc) (snd wc)))
              (filter (\<lambda>wc. scenario_assignment (Ship (fst wc) (snd wc)) \<le> 0.1)
                 (ship_vars (built_model scenario_customers scenario_warehouses scenario_routes 1 2)))))"
proof -
  have solved: "scenario_solver (built_model scenario_customers scenario_warehouses scenario_routes 1 2)
     = Inr \<lparr>status = 1, var_values = Some scenario_assignment\<rparr>"
    by (simp add: scenario_solver_def)
  have st: "status \<lparr>status = 1, var_values = Some scenario_assignment\<rparr> = 1" by simp
  have vals: "var_values \<lparr>status = 1, var_values = Some scenario_assignment\<rparr>
     = Some scenario_assignment" by simp
  have dw: "distinct (map warehouse_id scenario_warehouses)"
    by (simp add: scenario_warehouses_def)
  have dc: "distinct (map customer_id scenario_customers)"
    by (simp add: scenario_customers_def)
  from cost_breakdown_gap [where solve = scenario_solver,
      OF scenario_built scenario_feasible solved st vals dw dc]
    scenario_built scenario_feasible dw dc
  show ?thesis by blast
qed

subsection \<open>Runs that end without a result\<close>

text \<open>
  Outcomes before the files are written.  When the tables cannot be loaded, when building
  the model raises, when the solver raises, or when \<open>solve_and_analyze\<close> returns \<open>None\<close>
  or raises, \<open>main\<close> ends with that outcome and the files are as they were.  A solver
  status other than \<open>1\<close> (Optimal) is such an outcome: \<open>solve_and_analyze\<close> then returns
  \<open>None\<close>, or raises \<open>TypeError\<close> while printing the objective of a model whose
  variables have no value.
\<close>

lemma failed_run_leaves_nothing:
  "(loaded = None \<longrightarrow> main solve loaded fs = (Inr None, fs)) \<and>
   (loaded = Some (customers_df, warehouses_df, transport_df) \<and>
    calculate_capacity_constraints customers_df warehouses_df = (mn, mx) \<and>
    build_optimization_model customers_df warehouses_df transport_df mn mx = Inl e
      \<longrightarrow> main solve loaded fs = (Inl e, fs)) \<and>
   (loaded = Some (customers_df, warehouses_df, transport_df) \<and>
    calculate_capacity_constraints customers_df warehouses_df = (mn, mx) \<and>
    build_optimization_model customers_df warehouses_df transport_df mn mx = Inr m \<and>
    (solve_and_analyze solve m customers_df warehouses_df transport_df = Inr None \<or>
     solve_and_analyze solve m customers_df warehouses_df transport_df = Inl e)
      \<longrightarrow> main solve loaded fs
            = (solve_and_analyze solve m customers_df warehouses_df transport_df, fs)) \<and>
   (solve m = Inr out \<and> status out \<noteq> 1
      \<longrightarrow> solve_and_analyze solve m customers_df warehouses_df transport_df = Inr None \<or>
          solve_and_analyze solve m customers_df warehouses_df transport_df = Inl TypeError) \<and>
   (solve m = Inl e
      \<longrightarrow> solve_and_analyze solve m customers_df warehouses_df transport_df = Inl e)"
proof (intro conjI impI)
  show "main solve loaded fs = (Inr None, fs)" if "loaded = None"
    using that by (simp add: main_def)
  show "main solve loaded fs = (Inl e, fs)"
    if "loaded = Some (customers_df, warehouses_df, transport_df) \<and>
      calculate_capacity_constraints customers_df warehouses_df = (mn, mx) \<and>
      build_optimization_model customers_df warehouses_df transport_df mn mx = Inl e"
    using that by (simp add: main_def)
  show "main solve loaded fs = (solve_and_analyze solve m customers_df warehouses_df transport_df, fs)"
    if "loaded = Some (customers_df, warehouses_df, transport_df) \<and>
      calculate_capacity_constraints customers_df warehouses_df = (mn, mx) \<and>
      build_optimization_model customers_df warehouses_df transport_df mn mx = Inr m \<and>
      (solve_and_analyze solve m customers_df warehouses_df transport_df = Inr None \<or>
       solve_and_analyze solve m customers_df warehouses_df transport_df = Inl e)"
    using that by (auto simp: main_def)
  show "solve_and_analyze solve m customers_df warehouses_df transport_df = Inr None \<or>
      solve_and_analyze solve m customers_df warehouses_df transport_df = Inl TypeError"
    if "solve m = Inr out \<and> status out \<noteq> 1"
    using that solve_and_analyze_not_optimal [of solve m out] by blast
  show "solve_and_analyze solve m customers_df warehouses_df transport_df = Inl e"
    if "solve m = Inl e"
    using that by (rule solve_and_analyze_raises)
qed

lemma failed_run_leaves_nothing_example:
  "calculate_capacity_constraints (single_customer 100) short_warehouses = (0, 2) \<and>
   build_optimization_model (single_customer 100) short_warehouses short_routes 0 2
     = Inr (built_model (single_customer 100) short_warehouses short_routes 0 2) \<and>
   infeasible_solver (built_model (single_customer 100) short_warehouses short_routes 0 2)
     = Inr \<lparr>status = - 1, var_values = Some (\<lambda>v. 0)\<rparr> \<and>
   status \<lparr>status = - 1, var_values = Some (\<lambda>v. 0)\<rparr> \<noteq> 1 \<and>
   solve_and_analyze infeasible_solver
     (built_model (single_customer 100) short_warehouses short_routes 0 2)
     (single_customer 100) short_warehouses short_routes = Inr None \<and>
   main infeasible_solver (Some (single_customer 100, short_warehouses, short_routes)) no_files
     = (Inr None, no_files)"
proof -
  have built: "build_optimization_model (single_customer 100) short_warehouses short_routes 0 2
     = Inr (built_model (single_customer 100) short_warehouses short_routes 0 2)"
    by (rule build_present) (rule short_present)
  have solved: "infeasible_solver (built_model (single_customer 100) short_warehouses short_routes 0 2)
     = Inr \<lparr>status = - 1, var_values = Some (\<lambda>v. 0)\<rparr>"
    by (simp add: infeasible_solver_def)
  have st: "status \<lparr>status = - 1, var_values = Some (\<lambda>v. 0)\<rparr> \<noteq> 1" by simp
  from failed_run_leaves_nothing [of "Some (single_customer 100, short_warehouses, short_routes)"
      infeasible_solver no_files "single_customer 100" short_warehouses short_routes 0 2 IndexError
      "built_model (single_customer 100) short_warehouses short_routes 0 2"
      "\<lparr>status = - 1, var_values = Some (\<lambda>v. 0)\<rparr>"]
    short_range built solved st short_extract
  show ?thesis by simp
qed

text \<open>
  Claim C9: every error outcome aborts the run and leaves no shipment plan and no result
  file behind.  \<open>main\<close> writes its files only under \<open>if results\<close>, but one error comes
  after the first two writes.  With one facility and one demand point of demand \<open>0\<close> the
  only feasible assignment opens the facility and ships nothing; the extraction returns
  no shipment and the facility as opened.  \<open>main\<close> then writes the (empty) shipment file
  and the results file, and \<open>save_optimization_summary\<close> raises \<open>KeyError\<close> on the
  column \<open>from\<close> of the empty shipment frame: the run ends in an error with two of its
  files written.
\<close>

theorem summary_error_leaves_files:
  "calculate_capacity_constraints (single_customer 0) single_warehouse = (1, 1) \<and>
   build_optimization_model (single_customer 0) single_warehouse (single_route 2) 1 1
     = Inr (built_model (single_customer 0) single_warehouse (single_route 2) 1 1) \<and>
   feasible (built_model (single_customer 0) single_warehouse (single_route 2) 1 1)
     idle_assignment \<and>
   solve_and_analyze idle_solver
     (built_model (single_customer 0) single_warehouse (single_route 2) 1 1)
     (single_customer 0) single_warehouse (single_route 2)
     = Inr (Some ([], [''A''], 1000, 0)) \<and>
   main idle_solver (Some (single_customer 0, single_warehouse, single_route 2)) no_files
     = (Inl KeyError,
        \<lparr>shipments_csv = Some [], results_txt = Some ([''A''], 1000, 0), summary_txt = None\<rparr>)"
proof -
  have "main idle_solver (Some (single_customer 0, single_warehouse, single_route 2)) no_files
     = (Inl KeyError,
        \<lparr>shipments_csv = Some [], results_txt = Some ([''A''], 1000, 0), summary_txt = None\<rparr>)"
    by (simp add: main_def idle_range idle_built [unfolded One_nat_def]
        idle_extract [unfolded One_nat_def] save_optimization_summary_def no_files_def Let_def)
  with idle_range idle_built [of 0 2] idle_feasible idle_extract show ?thesis by simp
qed

end
